theory Spec2Isabelle
  imports Main "HOL-Library.Sublist"
begin

section \<open>JavaScript values as the two programs see them\<close>

text \<open>
  The query adapter (unicef-mcp-server/index.js) and the chart page script read JSON
  documents and tool arguments without checking their types, so the model keeps the
  dynamic typing: one datatype of values, with \<open>undefined\<close> for what a missing property
  reads as. Neither program computes with a number; it only tests one for truthiness and
  splices it into a template string. A number is therefore held as the decimal text that
  \<open>String(n)\<close> gives for it (\<open>0\<close> is \<open>JNum ''0''\<close>, \<open>0.4\<close> is \<open>JNum ''0.4''\<close>).
  An object is the list of its own properties. A string is the list of its characters,
  each a code point below 256: the model covers Latin-1 text, and on it the string
  methods below are the engine's, character by character.
\<close>

datatype jsval =
    JUndefined
  | JNull
  | JBool bool
  | JNum string
  | JStr string
  | JArr "jsval list"
  | JObj "(string \<times> jsval) list"

text \<open>
  An exception carries the \<open>message\<close> the handlers splice into their own. The messages
  of the TypeErrors the engine raises follow V8's wording, the receiver expression
  abridged in places.
\<close>

datatype exn = Exn (message: string)

text \<open>ToBoolean: what \<open>if (v)\<close>, \<open>!v\<close> and \<open>a || b\<close> test.\<close>

fun to_boolean :: "jsval \<Rightarrow> bool" where
  "to_boolean JUndefined = False"
| "to_boolean JNull = False"
| "to_boolean (JBool b) = b"
| "to_boolean (JNum n) = (n \<noteq> ''0'' \<and> n \<noteq> ''NaN'')"
| "to_boolean (JStr s) = (s \<noteq> [])"
| "to_boolean (JArr xs) = True"
| "to_boolean (JObj kvs) = True"

fun nullish :: "jsval \<Rightarrow> bool" where
  "nullish JUndefined = True"
| "nullish JNull = True"
| "nullish v = False"

text \<open>\<open>a || b\<close> on values that are already computed.\<close>

definition js_or :: "jsval \<Rightarrow> jsval \<Rightarrow> jsval" where
  "js_or a b = (if to_boolean a then a else b)"

text \<open>\<open>Array.prototype.join\<close> on strings that are already rendered.\<close>

fun join_with :: "string \<Rightarrow> string list \<Rightarrow> string" where
  "join_with sep [] = []"
| "join_with sep [s] = s"
| "join_with sep (s # t # ts) = s @ sep @ join_with sep (t # ts)"

text \<open>
  ToString, as a template literal \<open>`${v}`\<close> and \<open>Array.prototype.join\<close> apply it. An
  array renders as its elements joined by a comma, \<open>null\<close> and \<open>undefined\<close> elements as
  the empty string. An object renders through its \<open>toString\<close> method: the inherited one
  gives \<open>[object Object]\<close>, but an own property \<open>toString\<close> of a parsed document is
  never a function, and then the conversion throws a TypeError. \<open>element_strings\<close> renders
  the elements of an array from the left, as \<open>join\<close> does; the first throw ends it.
\<close>

fun to_string :: "jsval \<Rightarrow> exn + string"
  and element_strings :: "jsval list \<Rightarrow> exn + string list" where
  "to_string JUndefined = Inr ''undefined''"
| "to_string JNull = Inr ''null''"
| "to_string (JBool b) = Inr (if b then ''true'' else ''false'')"
| "to_string (JNum n) = Inr n"
| "to_string (JStr s) = Inr s"
| "to_string (JArr xs) =
     (case element_strings xs of Inl e \<Rightarrow> Inl e | Inr ss \<Rightarrow> Inr (join_with '','' ss))"
| "to_string (JObj kvs) =
     (if map_of kvs ''toString'' \<noteq> None
      then Inl (Exn ''Cannot convert object to primitive value'')
      else Inr ''[object Object]'')"
| "element_strings [] = Inr []"
| "element_strings (x # xs) =
     (case (if nullish x then Inr [] else to_string x) of
        Inl e \<Rightarrow> Inl e
      | Inr s \<Rightarrow> (case element_strings xs of Inl e \<Rightarrow> Inl e | Inr ss \<Rightarrow> Inr (s # ss)))"

text \<open>\<open>xs.join(sep)\<close> on an array of values.\<close>

definition js_join :: "string \<Rightarrow> jsval list \<Rightarrow> exn + string" where
  "js_join sep xs =
     (case element_strings xs of Inl e \<Rightarrow> Inl e | Inr ss \<Rightarrow> Inr (join_with sep ss))"

text \<open>
  Reading a property. Every property name the two programs read (\<open>data\<close>, \<open>codelists\<close>,
  \<open>id\<close>, \<open>names\<close>, \<open>en\<close>, \<open>name\<close>, \<open>codes\<close>, \<open>dataflows\<close>, \<open>agencyID\<close>, the
  argument names, \<open>mortality\<close>, \<open>nutrition\<close>, \<open>poverty\<close>, \<open>labels\<close>, \<open>datasets\<close>)
  is absent from the built-in prototypes, so on a primitive or an array the read gives
  \<open>undefined\<close>. On \<open>null\<close> and \<open>undefined\<close> the read throws a TypeError.
\<close>

fun field :: "jsval \<Rightarrow> string \<Rightarrow> jsval" where
  "field (JObj kvs) k = (case map_of kvs k of None \<Rightarrow> JUndefined | Some v \<Rightarrow> v)"
| "field v k = JUndefined"

definition get_prop :: "jsval \<Rightarrow> string \<Rightarrow> exn + jsval" where
  "get_prop v k =
     (if nullish v
      then Inl (Exn (''Cannot read properties of '' @ (if v = JNull then ''null'' else ''undefined'')
             @ '' (reading '' @ [CHR 0x27] @ k @ [CHR 0x27] @ '')''))
      else Inr (field v k))"

text \<open>Optional chaining \<open>v?.k\<close>.\<close>

definition opt_prop :: "jsval \<Rightarrow> string \<Rightarrow> jsval" where
  "opt_prop v k = (if nullish v then JUndefined else field v k)"

text \<open>Sequencing of computations that may throw.\<close>

definition and_then :: "exn + 'a \<Rightarrow> ('a \<Rightarrow> exn + 'b) \<Rightarrow> exn + 'b" where
  "and_then m f = (case m of Inl e \<Rightarrow> Inl e | Inr v \<Rightarrow> f v)"

text \<open>\<open>String.prototype.includes\<close>: \<open>includes_str s pat\<close> is \<open>s.includes(pat)\<close>.\<close>

fun includes_str :: "string \<Rightarrow> string \<Rightarrow> bool" where
  "includes_str [] pat = (pat = [])"
| "includes_str (c # cs) pat = (prefix pat (c # cs) \<or> includes_str cs pat)"

text \<open>
  The call \<open>v?.includes(pat)\<close> with a string argument: \<open>undefined\<close> on a nullish
  receiver, substring search on a string, element search on an array, and a TypeError
  on every other receiver, which has no \<open>includes\<close> method.
\<close>

definition opt_includes :: "jsval \<Rightarrow> string \<Rightarrow> exn + jsval" where
  "opt_includes v pat =
     (case v of
        JUndefined \<Rightarrow> Inr JUndefined
      | JNull \<Rightarrow> Inr JUndefined
      | JStr s \<Rightarrow> Inr (JBool (includes_str s pat))
      | JArr xs \<Rightarrow> Inr (JBool (JStr pat \<in> set xs))
      | _ \<Rightarrow> Inl (Exn ''cl.id?.includes is not a function''))"

text \<open>
  \<open>String.prototype.toLowerCase\<close>. Below code point 256 the capital letters are
  \<open>A\<close> to \<open>Z\<close> (65 to 90) and the accented capitals 192 to 222 without the
  multiplication sign 215; each has its small letter 32 places up, and every other
  character is left as it is. No character below 256 has a context-dependent or longer
  lower-case form.
\<close>

definition lower_char :: "char \<Rightarrow> char" where
  "lower_char c =
     (if ((65::nat) \<le> of_char c \<and> (of_char c :: nat) \<le> 90)
         \<or> ((192::nat) \<le> of_char c \<and> (of_char c :: nat) \<le> 222 \<and> (of_char c :: nat) \<noteq> 215)
      then char_of ((of_char c :: nat) + 32) else c)"

definition lower_str :: "string \<Rightarrow> string" where
  "lower_str s = map lower_char s"

text \<open>The call \<open>v.toLowerCase()\<close>: only a string has the method.\<close>

definition to_lower_case :: "jsval \<Rightarrow> exn + string" where
  "to_lower_case v =
     (case v of
        JStr s \<Rightarrow> Inr (lower_str s)
      | JUndefined \<Rightarrow> Inl (Exn (''Cannot read properties of undefined (reading '' @ [CHR 0x27] @ ''toLowerCase'' @ [CHR 0x27] @ '')''))
      | JNull \<Rightarrow> Inl (Exn (''Cannot read properties of null (reading '' @ [CHR 0x27] @ ''toLowerCase'' @ [CHR 0x27] @ '')''))
      | _ \<Rightarrow> Inl (Exn ''toLowerCase is not a function''))"

text \<open>
  \<open>String.prototype.trim\<close> strips white space and line terminators: below code point
  256 these are tab, line feed, vertical tab, form feed, carriage return, space and the
  no-break space 160.
\<close>

definition is_space :: "char \<Rightarrow> bool" where
  "is_space c = (of_char c \<in> {9, 10, 11, 12, 13, 32, 160 :: nat})"

definition trim :: "string \<Rightarrow> string" where
  "trim s = rev (dropWhile is_space (rev (dropWhile is_space s)))"

text \<open>
  The array methods with a callback that may throw: \<open>find\<close>, \<open>map\<close> and \<open>filter\<close> call
  it on the elements in order, and the first exception ends the walk.
\<close>

fun js_find :: "(jsval \<Rightarrow> exn + bool) \<Rightarrow> jsval list \<Rightarrow> exn + jsval" where
  "js_find p [] = Inr JUndefined"
| "js_find p (x # xs) =
     (case p x of
        Inl e \<Rightarrow> Inl e
      | Inr b \<Rightarrow> if b then Inr x else js_find p xs)"

fun js_map :: "(jsval \<Rightarrow> exn + jsval) \<Rightarrow> jsval list \<Rightarrow> exn + jsval list" where
  "js_map f [] = Inr []"
| "js_map f (x # xs) =
     (case f x of
        Inl e \<Rightarrow> Inl e
      | Inr y \<Rightarrow> (case js_map f xs of Inl e \<Rightarrow> Inl e | Inr ys \<Rightarrow> Inr (y # ys)))"

fun js_filter :: "(jsval \<Rightarrow> exn + bool) \<Rightarrow> jsval list \<Rightarrow> exn + jsval list" where
  "js_filter p [] = Inr []"
| "js_filter p (x # xs) =
     (case p x of
        Inl e \<Rightarrow> Inl e
      | Inr b \<Rightarrow> (case js_filter p xs of Inl e \<Rightarrow> Inl e | Inr ys \<Rightarrow> Inr (if b then x # ys else ys)))"

text \<open>
  Calling an array method on a value that is not nullish: every value but an array lacks
  the method, and the call throws a TypeError naming it.
\<close>

definition as_array :: "string \<Rightarrow> jsval \<Rightarrow> exn + jsval list" where
  "as_array what v =
     (case v of
        JArr xs \<Rightarrow> Inr xs
      | _ \<Rightarrow> Inl (Exn (what @ '' is not a function'')))"

section \<open>The query adapter (unicef-mcp-server/index.js)\<close>

text \<open>
  The remote service is a parameter: what \<open>fetch(url)\<close> does for each URL. It throws
  (a network failure) or gives a response, of which the handlers read the body as text
  (\<open>response.text()\<close>) or as a parsed document (\<open>response.json()\<close>, which throws on a
  body that is not JSON), and the page script reads the \<open>ok\<close> flag.
\<close>

record response =
  ok :: bool
  body_text :: "exn + string"
  body_json :: "exn + jsval"

type_synonym remote = "string \<Rightarrow> exn + response"

text \<open>
  A result payload is \<open>{ content: [{ type: "text", text: t }] }\<close>. Its text is either a
  string the handler built, or \<open>JSON.stringify(v, null, 2)\<close> of a value, kept as the value.
\<close>

datatype content = Text string | JsonText jsval

datatype payload = Payload content

text \<open>
  A handler returns or throws, and has issued the HTTP requests whose URLs are listed,
  in order.
\<close>

type_synonym 'a io = "(exn + 'a) \<times> string list"

definition UNICEF_API_BASE :: string where
  "UNICEF_API_BASE = ''https://sdmx.data.unicef.org/ws/public/sdmxapi/rest''"

text \<open>\<open>catch (error) { throw new Error(`<prefix>${error.message}`) }\<close>\<close>

definition rethrow :: "string \<Rightarrow> exn + 'a \<Rightarrow> exn + 'a" where
  "rethrow pre m = (case m of Inl error \<Rightarrow> Inl (Exn (pre @ message error)) | Inr v \<Rightarrow> Inr v)"

text \<open>\<open>code.names?.en || code.name || dflt\<close>, the right operand read only when needed.\<close>

definition label_or :: "jsval \<Rightarrow> jsval \<Rightarrow> exn + jsval" where
  "label_or code dflt =
     and_then (get_prop code ''names'') (\<lambda>names.
       let en = opt_prop names ''en'' in
       if to_boolean en then Inr en
       else and_then (get_prop code ''name'') (\<lambda>n. Inr (js_or n dflt)))"

text \<open>\<open>code => ({ id: code.id, name: code.names?.en || code.name || "Unknown" })\<close>\<close>

definition shape_code :: "jsval \<Rightarrow> exn + jsval" where
  "shape_code code =
     and_then (get_prop code ''id'') (\<lambda>i.
     and_then (label_or code (JStr ''Unknown'')) (\<lambda>n.
       Inr (JObj [(''id'', i), (''name'', n)])))"

text \<open>
  \<open>df => ({ id: df.id, name: df.names?.en || df.name || "Unknown", agency: df.agencyID })\<close>
\<close>

definition shape_dataflow :: "jsval \<Rightarrow> exn + jsval" where
  "shape_dataflow df =
     and_then (get_prop df ''id'') (\<lambda>i.
     and_then (label_or df (JStr ''Unknown'')) (\<lambda>n.
     and_then (get_prop df ''agencyID'') (\<lambda>a.
       Inr (JObj [(''id'', i), (''name'', n), (''agency'', a)]))))"

definition listDataflows :: "remote \<Rightarrow> payload io" where
  "listDataflows fetch =
     (let url = UNICEF_API_BASE @ ''/dataflow/all/all/latest/?format=sdmx-json&detail=allstubs'' in
      (rethrow ''Failed to fetch dataflows: ''
        (and_then (fetch url) (\<lambda>response.
         and_then (body_json response) (\<lambda>data.
         and_then (get_prop data ''data'') (\<lambda>d.
           let dataflows = js_or (opt_prop d ''dataflows'') (JArr []) in
           and_then (as_array ''dataflows.map'' dataflows) (\<lambda>dfs.
           and_then (js_map shape_dataflow dfs) (\<lambda>result.
             Inr (Payload (JsonText (JArr result))))))))),
       [url]))"

text \<open>
  The callback of \<open>codelists.find\<close>:
  \<open>cl => cl.id?.includes("INDICATOR") || cl.id?.includes("IND")\<close>
\<close>

definition is_indicator_codelist :: "jsval \<Rightarrow> exn + bool" where
  "is_indicator_codelist cl =
     and_then (get_prop cl ''id'') (\<lambda>i.
     and_then (opt_includes i ''INDICATOR'') (\<lambda>a.
       if to_boolean a then Inr True
       else and_then (get_prop cl ''id'') (\<lambda>j.
            and_then (opt_includes j ''IND'') (\<lambda>b. Inr (to_boolean b)))))"

text \<open>The metadata URL, for a dataflow code already rendered as a string.\<close>

definition metadata_url :: "string \<Rightarrow> string" where
  "metadata_url d =
     UNICEF_API_BASE @ ''/dataflow/UNICEF/'' @ d
       @ ''/latest/?format=sdmx-json&detail=full&references=all''"

text \<open>
  Each handler builds its URL inside its \<open>try\<close>: when rendering an argument throws, the
  handler rethrows before any request is issued.
\<close>

definition getIndicators :: "remote \<Rightarrow> jsval \<Rightarrow> payload io" where
  "getIndicators fetch dataflowId =
     (case to_string dataflowId of
        Inl error \<Rightarrow> (rethrow ''Failed to fetch indicators: '' (Inl error), [])
      | Inr d \<Rightarrow>
         (let url = metadata_url d in
          (rethrow ''Failed to fetch indicators: ''
            (and_then (fetch url) (\<lambda>response.
             and_then (body_json response) (\<lambda>data.
             and_then (get_prop data ''data'') (\<lambda>dd.
               let codelists = js_or (opt_prop dd ''codelists'') (JArr []) in
               and_then (as_array ''codelists.find'' codelists) (\<lambda>cls.
               and_then (js_find is_indicator_codelist cls) (\<lambda>indicatorCodelist.
                 if \<not> to_boolean indicatorCodelist
                 then and_then (to_string dataflowId) (\<lambda>shown.
                      and_then (js_map (\<lambda>c. get_prop c ''id'') cls) (\<lambda>ids.
                      and_then (js_join '', '' ids) (\<lambda>joined.
                        Inr (Payload (Text (''No indicator codelist found for dataflow ''
                          @ shown @ ''. Available codelists: '' @ joined))))))
                 else and_then (get_prop indicatorCodelist ''codes'') (\<lambda>codes.
                      and_then (if nullish codes then Inr []
                                else and_then (as_array ''indicatorCodelist.codes?.map'' codes)
                                       (js_map shape_code)) (\<lambda>indicators.
                        Inr (Payload (JsonText (JArr (take 100 indicators)))))))))))),
           [url])))"

text \<open>
  The data key and the URL that \<open>getData\<close> builds before it issues the request, the
  template literals rendered in the order of the source.
\<close>

definition data_key :: "jsval \<Rightarrow> jsval \<Rightarrow> exn + string" where
  "data_key countryCode indicatorId =
     and_then (to_string countryCode) (\<lambda>c.
       if to_boolean indicatorId
       then and_then (to_string indicatorId) (\<lambda>i. Inr (c @ ''.'' @ i))
       else Inr (c @ ''.''))"

definition data_url :: "jsval \<Rightarrow> jsval \<Rightarrow> jsval \<Rightarrow> jsval \<Rightarrow> jsval \<Rightarrow> exn + string" where
  "data_url dataflowId countryCode indicatorId startYear endYear =
     and_then (data_key countryCode indicatorId) (\<lambda>dataKey.
     and_then (to_string dataflowId) (\<lambda>d.
     and_then (if to_boolean startYear
               then and_then (to_string startYear) (\<lambda>y. Inr (''&startPeriod='' @ y))
               else Inr []) (\<lambda>startPeriod.
     and_then (if to_boolean endYear
               then and_then (to_string endYear) (\<lambda>y. Inr (''&endPeriod='' @ y))
               else Inr []) (\<lambda>endPeriod.
       Inr (UNICEF_API_BASE @ ''/data/UNICEF,'' @ d @ '',1.0/'' @ dataKey @ ''?format=csv''
              @ startPeriod @ endPeriod)))))"

definition getData :: "remote \<Rightarrow> jsval \<Rightarrow> jsval \<Rightarrow> jsval \<Rightarrow> jsval \<Rightarrow> jsval \<Rightarrow> payload io" where
  "getData fetch dataflowId countryCode indicatorId startYear endYear =
     (case data_url dataflowId countryCode indicatorId startYear endYear of
        Inl error \<Rightarrow> (rethrow ''Failed to fetch data: '' (Inl error), [])
      | Inr url \<Rightarrow>
         (rethrow ''Failed to fetch data: ''
           (and_then (fetch url) (\<lambda>response.
            and_then (body_text response) (\<lambda>csvText.
              if csvText = [] \<or> trim csvText = []
              then and_then (to_string countryCode) (\<lambda>c.
                   and_then (to_string dataflowId) (\<lambda>d.
                     Inr (Payload (Text (''No data found for '' @ c @ '' in '' @ d)))))
              else Inr (Payload (Text csvText))))),
          [url]))"

text \<open>The callback of \<open>codes.filter\<close> in \<open>searchIndicators\<close>.\<close>

definition code_matches :: "string \<Rightarrow> jsval \<Rightarrow> exn + bool" where
  "code_matches keywordLower code =
     and_then (and_then (label_or code (JStr [])) to_lower_case) (\<lambda>name.
     and_then (and_then (get_prop code ''id'') (\<lambda>i. to_lower_case (js_or i (JStr [])))) (\<lambda>ident.
       Inr (includes_str name keywordLower \<or> includes_str ident keywordLower)))"

definition searchIndicators :: "remote \<Rightarrow> jsval \<Rightarrow> payload io" where
  "searchIndicators fetch keyword =
     (let url = metadata_url ''GLOBAL_DATAFLOW'' in
      (rethrow ''Failed to search indicators: ''
        (and_then (fetch url) (\<lambda>response.
         and_then (body_json response) (\<lambda>data.
         and_then (get_prop data ''data'') (\<lambda>d.
           let codelists = js_or (opt_prop d ''codelists'') (JArr []) in
           and_then (as_array ''codelists.find'' codelists) (\<lambda>cls.
           and_then (js_find is_indicator_codelist cls) (\<lambda>indicatorCodelist.
             if \<not> to_boolean indicatorCodelist
             then Inr (Payload (Text ''Could not find indicator codelist''))
             else and_then (to_lower_case keyword) (\<lambda>keywordLower.
                  and_then (get_prop indicatorCodelist ''codes'') (\<lambda>codes.
                  and_then (if nullish codes then Inr []
                            else and_then (as_array ''indicatorCodelist.codes?.filter'' codes) (\<lambda>cs.
                                 and_then (js_filter (code_matches keywordLower) cs)
                                   (js_map shape_code))) (\<lambda>matchingIndicators.
                    Inr (Payload (JsonText (JArr (take 50 matchingIndicators))))))))))))),
       [url]))"

text \<open>
  The handler of an invocation request. The arguments of a call are read first, left to
  right; a read that throws leaves the call unmade and no request issued. The \<open>catch\<close>
  around the \<open>switch\<close> turns every exception into a payload.
\<close>

definition arg_then :: "exn + 'a \<Rightarrow> ('a \<Rightarrow> 'b io) \<Rightarrow> 'b io" where
  "arg_then m f = (case m of Inl e \<Rightarrow> (Inl e, []) | Inr v \<Rightarrow> f v)"

definition catch_error :: "payload io \<Rightarrow> payload io" where
  "catch_error r =
     (case fst r of
        Inl error \<Rightarrow> (Inr (Payload (Text (''Error: '' @ message error))), snd r)
      | Inr p \<Rightarrow> r)"

definition call_tool :: "remote \<Rightarrow> string \<Rightarrow> jsval \<Rightarrow> payload io" where
  "call_tool fetch name args =
     catch_error
       (if name = ''list_dataflows'' then listDataflows fetch
        else if name = ''get_indicators'' then
          arg_then (get_prop args ''dataflow_id'') (getIndicators fetch)
        else if name = ''get_child_poverty_data'' then
          arg_then (get_prop args ''country_code'') (\<lambda>cc.
          arg_then (get_prop args ''start_year'') (\<lambda>sy.
          arg_then (get_prop args ''end_year'') (\<lambda>ey.
            getData fetch (JStr ''CHLD_PVTY'') cc JNull sy ey)))
        else if name = ''get_child_mortality_data'' then
          arg_then (get_prop args ''country_code'') (\<lambda>cc.
          arg_then (get_prop args ''start_year'') (\<lambda>sy.
          arg_then (get_prop args ''end_year'') (\<lambda>ey.
            getData fetch (JStr ''CME'') cc JNull sy ey)))
        else if name = ''get_nutrition_data'' then
          arg_then (get_prop args ''country_code'') (\<lambda>cc.
          arg_then (get_prop args ''start_year'') (\<lambda>sy.
          arg_then (get_prop args ''end_year'') (\<lambda>ey.
            getData fetch (JStr ''NUTRITION'') cc JNull sy ey)))
        else if name = ''get_indicator_for_country'' then
          arg_then (get_prop args ''dataflow_id'') (\<lambda>df.
          arg_then (get_prop args ''country_code'') (\<lambda>cc.
          arg_then (get_prop args ''indicator_id'') (\<lambda>ind.
          arg_then (get_prop args ''start_year'') (\<lambda>sy.
          arg_then (get_prop args ''end_year'') (\<lambda>ey.
            getData fetch df cc ind sy ey)))))
        else if name = ''search_indicators'' then
          arg_then (get_prop args ''keyword'') (searchIndicators fetch)
        else (Inl (Exn (''Unknown tool: '' @ name)), []))"

text \<open>The operation names that the list-tools handler declares.\<close>

definition tool_names :: "string list" where
  "tool_names =
     [''list_dataflows'', ''get_indicators'', ''get_child_poverty_data'',
      ''get_child_mortality_data'', ''get_nutrition_data'', ''get_indicator_for_country'',
      ''search_indicators'']"

section \<open>The chart page script\<close>

text \<open>
  Of a chart the script touches \<open>chart.data.labels\<close> and \<open>chart.data.datasets\<close> only. The
  three module variables \<open>mortalityChart\<close>, \<open>nutritionChart\<close> and \<open>povertyChart\<close> stay
  \<open>undefined\<close> (\<open>None\<close>) until their \<open>init\<close> function finds its canvas.
\<close>

record chart =
  labels :: jsval
  datasets :: jsval

record page =
  mortalityChart :: "chart option"
  nutritionChart :: "chart option"
  povertyChart :: "chart option"

definition colors_primary :: string where "colors_primary = ''#1a73e8''"
definition colors_secondary :: string where "colors_secondary = ''#34a853''"
definition colors_accent :: string where "colors_accent = ''#ea4335''"
definition colors_unicefBlue :: string where "colors_unicefBlue = ''#1cabe2''"
definition colors_warning :: string where "colors_warning = ''#fbbc04''"
definition colors_purple :: string where "colors_purple = ''#9334e6''"

definition line_series :: "string \<Rightarrow> string list \<Rightarrow> string \<Rightarrow> jsval" where
  "line_series name points colour =
     JObj [(''label'', JStr name), (''data'', JArr (map JNum points)),
           (''borderColor'', JStr colour), (''backgroundColor'', JStr (colour @ ''20'')),
           (''fill'', JBool True), (''tension'', JNum ''0.4'')]"

definition mortality_placeholder :: chart where
  "mortality_placeholder =
     \<lparr>labels = JArr (map JStr [''1990'', ''1995'', ''2000'', ''2005'', ''2010'', ''2015'', ''2020'']),
      datasets = JArr
        [line_series ''Under-5 Mortality Rate'' [''93'', ''87'', ''77'', ''63'', ''52'', ''43'', ''37''] colors_accent,
         line_series ''Infant Mortality Rate'' [''64'', ''60'', ''54'', ''46'', ''39'', ''32'', ''28''] colors_primary,
         line_series ''Neonatal Mortality Rate'' [''36'', ''34'', ''31'', ''27'', ''23'', ''19'', ''17''] colors_secondary]\<rparr>"

definition bar_series :: "string \<Rightarrow> string list \<Rightarrow> string \<Rightarrow> jsval" where
  "bar_series name points colour =
     JObj [(''label'', JStr name), (''data'', JArr (map JNum points)),
           (''backgroundColor'', JStr (colour @ ''cc''))]"

definition nutrition_placeholder :: chart where
  "nutrition_placeholder =
     \<lparr>labels = JArr (map JStr [''Sub-Saharan Africa'', ''South Asia'', ''East Asia'',
                                ''Latin America'', ''Middle East'', ''Europe'']),
      datasets = JArr
        [bar_series ''Stunting (%)'' [''33'', ''31'', ''8'', ''11'', ''15'', ''5''] colors_accent,
         bar_series ''Wasting (%)'' [''6'', ''14'', ''2'', ''1'', ''7'', ''1''] colors_warning,
         bar_series ''Underweight (%)'' [''18'', ''27'', ''4'', ''4'', ''9'', ''2''] colors_purple]\<rparr>"

definition point :: "string \<Rightarrow> string \<Rightarrow> jsval" where
  "point x y = JObj [(''x'', JNum x), (''y'', JNum y)]"

text \<open>The scatter placeholder has no \<open>labels\<close> property.\<close>

definition poverty_placeholder :: chart where
  "poverty_placeholder =
     \<lparr>labels = JUndefined,
      datasets = JArr
        [JObj [(''label'', JStr ''GDP per Capita vs Under-5 Mortality''),
               (''data'', JArr [point ''500'' ''120'', point ''1000'' ''90'', point ''2000'' ''60'',
                               point ''5000'' ''35'', point ''10000'' ''20'', point ''20000'' ''10'',
                               point ''40000'' ''5'', point ''60000'' ''4'']),
               (''backgroundColor'', JStr (colors_unicefBlue @ ''80'')),
               (''borderColor'', JStr colors_unicefBlue),
               (''pointRadius'', JNum ''8'')]]\<rparr>"

text \<open>
  \<open>document.getElementById(id)\<close> finds an element when the page has one with that id; the
  page is given by the ids of its elements.
\<close>

definition initMortalityChart :: "string list \<Rightarrow> page \<Rightarrow> page" where
  "initMortalityChart ids s =
     (if ''mortalityChart'' \<notin> set ids then s
      else s\<lparr>mortalityChart := Some mortality_placeholder\<rparr>)"

definition initNutritionChart :: "string list \<Rightarrow> page \<Rightarrow> page" where
  "initNutritionChart ids s =
     (if ''nutritionChart'' \<notin> set ids then s
      else s\<lparr>nutritionChart := Some nutrition_placeholder\<rparr>)"

definition initPovertyChart :: "string list \<Rightarrow> page \<Rightarrow> page" where
  "initPovertyChart ids s =
     (if ''povertyChart'' \<notin> set ids then s
      else s\<lparr>povertyChart := Some poverty_placeholder\<rparr>)"

text \<open>
  The update functions assign into the chart and call the charting library's
  \<open>chart.update()\<close>, a parameter here: \<open>redraw ch\<close> is the exception the library throws for
  the chart, if any. An assignment made before the throw stays.
\<close>

definition updateMortalityChart :: "(chart \<Rightarrow> exn option) \<Rightarrow> jsval \<Rightarrow> page \<Rightarrow> exn option \<times> page" where
  "updateMortalityChart redraw data s =
     (case mortalityChart s of
        None \<Rightarrow> (None, s)
      | Some ch \<Rightarrow>
          if to_boolean data
          then (let ch' = ch\<lparr>labels := field data ''labels'', datasets := field data ''datasets''\<rparr>
                in (redraw ch', s\<lparr>mortalityChart := Some ch'\<rparr>))
          else (None, s))"

definition updateNutritionChart :: "(chart \<Rightarrow> exn option) \<Rightarrow> jsval \<Rightarrow> page \<Rightarrow> exn option \<times> page" where
  "updateNutritionChart redraw data s =
     (case nutritionChart s of
        None \<Rightarrow> (None, s)
      | Some ch \<Rightarrow>
          if to_boolean data
          then (let ch' = ch\<lparr>labels := field data ''labels'', datasets := field data ''datasets''\<rparr>
                in (redraw ch', s\<lparr>nutritionChart := Some ch'\<rparr>))
          else (None, s))"

definition updatePovertyChart :: "(chart \<Rightarrow> exn option) \<Rightarrow> jsval \<Rightarrow> page \<Rightarrow> exn option \<times> page" where
  "updatePovertyChart redraw data s =
     (case povertyChart s of
        None \<Rightarrow> (None, s)
      | Some ch \<Rightarrow>
          if to_boolean data
          then (let ch' = ch\<lparr>datasets := field data ''datasets''\<rparr>
                in (redraw ch', s\<lparr>povertyChart := Some ch'\<rparr>))
          else (None, s))"

text \<open>
  One statement \<open>if (data.k) { update(data.k); }\<close> of \<open>updateChartsWithData\<close>: reading
  \<open>data.k\<close> throws when \<open>data\<close> is \<open>null\<close>.
\<close>

definition update_if :: "jsval \<Rightarrow> string \<Rightarrow> (jsval \<Rightarrow> page \<Rightarrow> exn option \<times> page) \<Rightarrow> page \<Rightarrow> exn option \<times> page" where
  "update_if data k upd s =
     (case get_prop data k of
        Inl e \<Rightarrow> (Some e, s)
      | Inr v \<Rightarrow> if to_boolean v then upd v s else (None, s))"

text \<open>Statements in sequence: an exception skips the rest.\<close>

definition seq :: "(page \<Rightarrow> exn option \<times> page) \<Rightarrow> (page \<Rightarrow> exn option \<times> page) \<Rightarrow> page \<Rightarrow> exn option \<times> page" where
  "seq f g s = (case f s of (Some e, s') \<Rightarrow> (Some e, s') | (None, s') \<Rightarrow> g s')"

definition updateChartsWithData :: "(chart \<Rightarrow> exn option) \<Rightarrow> jsval \<Rightarrow> page \<Rightarrow> exn option \<times> page" where
  "updateChartsWithData redraw data =
     seq (update_if data ''mortality'' (updateMortalityChart redraw))
    (seq (update_if data ''nutrition'' (updateNutritionChart redraw))
         (update_if data ''poverty'' (updatePovertyChart redraw)))"

text \<open>
  \<open>loadDataFromJSON\<close>: the \<open>catch\<close> absorbs every exception (it logs a line to the
  console), so what is left of a failed load is the page as it stood at the throw.
\<close>

definition loadDataFromJSON :: "remote \<Rightarrow> (chart \<Rightarrow> exn option) \<Rightarrow> page \<Rightarrow> page" where
  "loadDataFromJSON fetch redraw s =
     (case fetch ''data/summary.json'' of
        Inl error \<Rightarrow> s
      | Inr response \<Rightarrow>
          if ok response
          then (case body_json response of
                  Inl error \<Rightarrow> s
                | Inr data \<Rightarrow> snd (updateChartsWithData redraw data s))
          else s)"

text \<open>The \<open>DOMContentLoaded\<close> listener, run on a page whose chart variables are unset.\<close>

definition on_load :: "remote \<Rightarrow> (chart \<Rightarrow> exn option) \<Rightarrow> string list \<Rightarrow> page" where
  "on_load fetch redraw ids =
     loadDataFromJSON fetch redraw
       (initPovertyChart ids (initNutritionChart ids (initMortalityChart ids
          \<lparr>mortalityChart = None, nutritionChart = None, povertyChart = None\<rparr>)))"

section \<open>Vocabulary of the properties\<close>

text \<open>Two remote services to run the handlers against: one that cannot be reached, and
  one that answers every request with the same response.\<close>

definition offline :: remote where
  "offline url = Inl (Exn ''fetch failed'')"

definition serving :: "response \<Rightarrow> remote" where
  "serving r url = Inr r"

text \<open>A charting library whose \<open>update\<close> never throws.\<close>

definition redraw_ok :: "chart \<Rightarrow> exn option" where
  "redraw_ok ch = None"

text \<open>A property that is absent, \<open>null\<close> or a string.\<close>

definition text_field :: "jsval \<Rightarrow> bool" where
  "text_field v = (case v of JUndefined \<Rightarrow> True | JNull \<Rightarrow> True | JStr s \<Rightarrow> True | _ \<Rightarrow> False)"

definition text_of :: "jsval \<Rightarrow> string" where
  "text_of v = (case v of JStr s \<Rightarrow> s | _ \<Rightarrow> [])"

text \<open>A code list: an object whose \<open>id\<close>, when it has one, is a string.\<close>

definition wf_codelist :: "jsval \<Rightarrow> bool" where
  "wf_codelist cl = (\<not> nullish cl \<and> text_field (field cl ''id''))"

text \<open>The identifier of a code list contains \<open>INDICATOR\<close> or \<open>IND\<close>.\<close>

definition id_selects :: "jsval \<Rightarrow> bool" where
  "id_selects cl = (sublist ''INDICATOR'' (text_of (field cl ''id'')) \<or> sublist ''IND'' (text_of (field cl ''id'')))"

text \<open>A code: an object whose \<open>id\<close>, \<open>name\<close> and \<open>names.en\<close>, when there, are strings.\<close>

definition wf_code :: "jsval \<Rightarrow> bool" where
  "wf_code c =
     (\<not> nullish c \<and> text_field (field c ''id'') \<and> text_field (field c ''name'')
      \<and> text_field (opt_prop (field c ''names'') ''en''))"

text \<open>The identifier and the label of a code: the label is \<open>names.en\<close>, or else \<open>name\<close>.\<close>

definition entry_id :: "jsval \<Rightarrow> string" where
  "entry_id c = text_of (field c ''id'')"

definition entry_label :: "jsval \<Rightarrow> string" where
  "entry_label c =
     (if text_of (opt_prop (field c ''names'') ''en'') \<noteq> []
      then text_of (opt_prop (field c ''names'') ''en'')
      else text_of (field c ''name''))"

text \<open>The \<open>{id, name}\<close> pair returned for a code, \<open>Unknown\<close> standing for a missing label.\<close>

definition code_entry :: "jsval \<Rightarrow> jsval" where
  "code_entry c =
     JObj [(''id'', field c ''id''),
           (''name'', js_or (js_or (opt_prop (field c ''names'') ''en'') (field c ''name''))
                        (JStr ''Unknown''))]"

text \<open>
  Two characters are the same letter up to case when they are equal or one is a capital
  letter and the other its small letter, 32 code points up. A text contains a keyword
  case-insensitively when one of its substrings is the keyword, letter for letter, up to
  case.
\<close>

definition is_upper :: "char \<Rightarrow> bool" where
  "is_upper c =
     (((65::nat) \<le> of_char c \<and> (of_char c :: nat) \<le> 90)
      \<or> ((192::nat) \<le> of_char c \<and> (of_char c :: nat) \<le> 214)
      \<or> ((216::nat) \<le> of_char c \<and> (of_char c :: nat) \<le> 222))"

definition same_letter :: "char \<Rightarrow> char \<Rightarrow> bool" where
  "same_letter a b =
     (a = b \<or> (is_upper a \<and> (of_char b :: nat) = of_char a + 32)
            \<or> (is_upper b \<and> (of_char a :: nat) = of_char b + 32))"

definition contains_ci :: "string \<Rightarrow> string \<Rightarrow> bool" where
  "contains_ci txt kw = (\<exists>pre mid post. txt = pre @ mid @ post \<and> list_all2 same_letter mid kw)"

text \<open>A value that is not an array or an object.\<close>

definition primitive :: "jsval \<Rightarrow> bool" where
  "primitive v = (case v of JArr xs \<Rightarrow> False | JObj kvs \<Rightarrow> False | _ \<Rightarrow> True)"

text \<open>
  The summary document gives nothing for key \<open>k\<close>: the fetch fails, the status is not a
  success, the body does not parse, or the parsed document has no property \<open>k\<close>.
\<close>

definition summary_lacks :: "remote \<Rightarrow> string \<Rightarrow> bool" where
  "summary_lacks fetch k =
     (case fetch ''data/summary.json'' of
        Inl e \<Rightarrow> True
      | Inr r \<Rightarrow>
          \<not> ok r \<or> (case body_json r of Inl e \<Rightarrow> True | Inr data \<Rightarrow> field data k = JUndefined))"

text \<open>
  The four operations whose case in the \<open>switch\<close> calls \<open>getData\<close>, with the dataflow
  and the indicator each of them passes.
\<close>

definition retrieval_names :: "string list" where
  "retrieval_names =
     [''get_child_poverty_data'', ''get_child_mortality_data'', ''get_nutrition_data'',
      ''get_indicator_for_country'']"

definition retrieval_dataflow :: "string \<Rightarrow> jsval \<Rightarrow> jsval" where
  "retrieval_dataflow name args =
     (if name = ''get_child_poverty_data'' then JStr ''CHLD_PVTY''
      else if name = ''get_child_mortality_data'' then JStr ''CME''
      else if name = ''get_nutrition_data'' then JStr ''NUTRITION''
      else field args ''dataflow_id'')"

definition retrieval_indicator :: "string \<Rightarrow> jsval \<Rightarrow> jsval" where
  "retrieval_indicator name args =
     (if name = ''get_indicator_for_country'' then field args ''indicator_id'' else JNull)"

section \<open>Sample inputs\<close>

text \<open>Responses of the remote service: a tabular body, and a metadata document with the
  given code lists.\<close>

definition csv_response :: "string \<Rightarrow> response" where
  "csv_response body =
     \<lparr>ok = True, body_text = Inr body, body_json = Inl (Exn ''Unexpected token'')\<rparr>"

definition metadata_response :: "jsval list \<Rightarrow> response" where
  "metadata_response cls =
     \<lparr>ok = True, body_text = Inr ''(metadata document)'',
      body_json = Inr (JObj [(''data'', JObj [(''codelists'', JArr cls)])])\<rparr>"

definition sample_codes :: "jsval list" where
  "sample_codes =
     [JObj [(''id'', JStr ''PT_CHLD''), (''names'', JObj [(''en'', JStr ''Child Poverty'')])],
      JObj [(''id'', JStr ''CME_MRY0''), (''name'', JStr ''Under-five mortality rate'')],
      JObj [(''id'', JStr ''NT_BW_LBW'')]]"

definition sample_codelists :: "jsval list" where
  "sample_codelists =
     [JObj [(''id'', JStr ''CL_AGE''), (''codes'', JArr [JObj [(''id'', JStr ''Y0T4'')]])],
      JObj [(''id'', JStr ''CL_UNICEF_INDICATOR''), (''codes'', JArr sample_codes)]]"

text \<open>A code whose label starts with a capital E acute (code point 201).\<close>

definition accented_codes :: "jsval list" where
  "accented_codes =
     [JObj [(''id'', JStr ''ED_SCH''), (''name'', JStr (CHR 0xC9 # ''cole''))],
      JObj [(''id'', JStr ''CME_MRY0''), (''name'', JStr ''Under-five mortality rate'')]]"

definition accented_codelists :: "jsval list" where
  "accented_codelists = [JObj [(''id'', JStr ''CL_INDICATOR''), (''codes'', JArr accented_codes)]]"

definition other_codelists :: "jsval list" where
  "other_codelists = [JObj [(''id'', JStr ''CL_AREA'')], JObj [(''id'', JStr ''CL_UNIT'')]]"

text \<open>A summary document with the \<open>mortality\<close> key only.\<close>

definition summary_response :: "jsval \<Rightarrow> response" where
  "summary_response doc =
     \<lparr>ok = True, body_text = Inr ''(summary document)'', body_json = Inr doc\<rparr>"

definition mortality_only :: jsval where
  "mortality_only =
     JObj [(''mortality'',
            JObj [(''labels'', JArr [JStr ''2000'', JStr ''2020'']),
                  (''datasets'', JArr [JObj [(''label'', JStr ''Under-5 Mortality Rate''),
                                            (''data'', JArr [JNum ''76.4'', JNum ''36.6''])]])])]"

section \<open>Facts about the JavaScript helpers\<close>

lemma includes_str_sublist: "includes_str s pat \<longleftrightarrow> sublist pat s"
  by (induction s) (simp_all add: sublist_Cons_right)

lemma field_nullish: "nullish v \<Longrightarrow> field v k = JUndefined"
  by (cases v) simp_all

lemma get_prop_field: "\<not> nullish v \<Longrightarrow> get_prop v k = Inr (field v k)"
  by (simp add: get_prop_def)

lemma and_then_Inr: "and_then (Inr v) f = f v"
  by (simp add: and_then_def)

lemma js_find_total:
  "\<forall>x\<in>set xs. p x = Inr (q x) \<Longrightarrow>
   js_find p xs = Inr (case find q xs of None \<Rightarrow> JUndefined | Some x \<Rightarrow> x)"
  by (induction xs) simp_all

lemma js_map_total: "\<forall>x\<in>set xs. f x = Inr (g x) \<Longrightarrow> js_map f xs = Inr (map g xs)"
  by (induction xs) simp_all

lemma js_filter_total: "\<forall>x\<in>set xs. p x = Inr (q x) \<Longrightarrow> js_filter p xs = Inr (filter q xs)"
  by (induction xs) simp_all

text \<open>\<open>!s || s.trim() === ""\<close> holds of the strings made of white space only.\<close>

lemma trim_empty_iff: "(s = [] \<or> trim s = []) \<longleftrightarrow> (\<forall>c\<in>set s. is_space c)"
proof -
  have "trim s = [] \<longleftrightarrow> (\<forall>c\<in>set (dropWhile is_space s). is_space c)"
    by (simp add: trim_def dropWhile_eq_Nil_conv)
  also have "\<dots> \<longleftrightarrow> dropWhile is_space s = []"
  proof
    assume a: "\<forall>c\<in>set (dropWhile is_space s). is_space c"
    show "dropWhile is_space s = []"
    proof (rule ccontr)
      assume n: "dropWhile is_space s \<noteq> []"
      then have "\<not> is_space (hd (dropWhile is_space s))" by (rule hd_dropWhile)
      moreover from n have "hd (dropWhile is_space s) \<in> set (dropWhile is_space s)" by simp
      ultimately show False using a by blast
    qed
  next
    assume "dropWhile is_space s = []"
    then show "\<forall>c\<in>set (dropWhile is_space s). is_space c" by (metis empty_iff empty_set)
  qed
  also have "\<dots> \<longleftrightarrow> (\<forall>c\<in>set s. is_space c)"
    by (simp add: dropWhile_eq_Nil_conv)
  finally have "trim s = [] \<longleftrightarrow> (\<forall>c\<in>set s. is_space c)" .
  then show ?thesis by auto
qed

text \<open>Rendering: a primitive always renders, and so does a list of strings.\<close>

lemma primitive_to_string: "primitive v \<Longrightarrow> \<exists>s. to_string v = Inr s"
  by (cases v) (simp_all add: primitive_def)

lemma element_strings_JStr: "element_strings (map JStr ss) = Inr ss"
  by (induction ss) simp_all

text \<open>Lowering identifies exactly the characters that are the same letter up to case.\<close>

lemma char_of_eq_iff_mod: "char_of (k::nat) = c \<longleftrightarrow> k mod 256 = of_char c"
proof
  assume "char_of k = c"
  then have "(of_char (char_of k) :: nat) = of_char c" by simp
  then show "k mod 256 = of_char c" by simp
next
  assume "k mod 256 = of_char c"
  then have "char_of (k mod 256) = char_of (of_char c :: nat)" by simp
  then show "char_of k = c" by simp
qed

text \<open>The capital letters are those that \<open>lower_char\<close> moves.\<close>

lemma upper_iff:
  "is_upper c \<longleftrightarrow>
     (let n = (of_char c :: nat) in (65 \<le> n \<and> n \<le> 90) \<or> (192 \<le> n \<and> n \<le> 222 \<and> n \<noteq> 215))"
proof -
  define n where "n = (of_char c :: nat)"
  have "((65 \<le> n \<and> n \<le> 90) \<or> (192 \<le> n \<and> n \<le> 214) \<or> (216 \<le> n \<and> n \<le> 222))
        = ((65 \<le> n \<and> n \<le> 90) \<or> (192 \<le> n \<and> n \<le> 222 \<and> n \<noteq> 215))"
    by arith
  then show ?thesis unfolding is_upper_def Let_def n_def .
qed

lemma lower_char_upper: "is_upper c \<Longrightarrow> lower_char c = char_of ((of_char c :: nat) + 32)"
  unfolding upper_iff lower_char_def Let_def by (rule if_P)

lemma lower_char_other: "\<not> is_upper c \<Longrightarrow> lower_char c = c"
  unfolding upper_iff lower_char_def Let_def by (rule if_not_P)

lemma upper_bound: "is_upper c \<Longrightarrow> (of_char c :: nat) + 32 < 256"
proof -
  define n where "n = (of_char c :: nat)"
  assume "is_upper c"
  then have "(65 \<le> n \<and> n \<le> 90) \<or> (192 \<le> n \<and> n \<le> 214) \<or> (216 \<le> n \<and> n \<le> 222)"
    unfolding is_upper_def n_def .
  then have "n + 32 < 256" by arith
  then show ?thesis unfolding n_def .
qed

lemma small_not_upper:
  assumes "is_upper c" and "(of_char d :: nat) = of_char c + 32"
  shows "\<not> is_upper d"
proof -
  define n where "n = (of_char c :: nat)"
  define m where "m = (of_char d :: nat)"
  from assms(1) have "(65 \<le> n \<and> n \<le> 90) \<or> (192 \<le> n \<and> n \<le> 214) \<or> (216 \<le> n \<and> n \<le> 222)"
    unfolding is_upper_def n_def .
  moreover from assms(2) have "m = n + 32" unfolding n_def m_def .
  ultimately have "\<not> ((65 \<le> m \<and> m \<le> 90) \<or> (192 \<le> m \<and> m \<le> 214) \<or> (216 \<le> m \<and> m \<le> 222))"
    by arith
  then show ?thesis unfolding is_upper_def m_def .
qed

lemma lower_upper_eq: "is_upper a \<Longrightarrow> lower_char a = b \<longleftrightarrow> (of_char b :: nat) = of_char a + 32"
proof -
  assume a: "is_upper a"
  have "lower_char a = b \<longleftrightarrow> ((of_char a :: nat) + 32) mod 256 = of_char b"
    unfolding lower_char_upper[OF a] by (rule char_of_eq_iff_mod)
  also have "((of_char a :: nat) + 32) mod 256 = of_char a + 32"
    using upper_bound[OF a] by (rule mod_less)
  finally show ?thesis by (simp only: eq_commute[of "of_char b"])
qed

lemma lower_char_eq_iff: "lower_char a = lower_char b \<longleftrightarrow> same_letter a b"
proof (cases "is_upper a")
  case a: True
  show ?thesis
  proof (cases "is_upper b")
    case b: True
    have n1: "\<not> (of_char b :: nat) = of_char a + 32" using small_not_upper[OF a] b by blast
    have n2: "\<not> (of_char a :: nat) = of_char b + 32" using small_not_upper[OF b] a by blast
    have "lower_char a = lower_char b \<longleftrightarrow> (of_char a :: nat) + 32 = of_char b + 32"
      unfolding lower_upper_eq[OF a] lower_char_upper[OF b]
      using upper_bound[OF b] by (simp only: of_char_of mod_less eq_commute)
    also have "\<dots> \<longleftrightarrow> a = b" by simp
    finally show ?thesis using n1 n2 by (simp only: same_letter_def simp_thms)
  next
    case b: False
    from a b have ne: "a \<noteq> b" by blast
    have "lower_char a = lower_char b \<longleftrightarrow> (of_char b :: nat) = of_char a + 32"
      unfolding lower_char_other[OF b] by (rule lower_upper_eq[OF a])
    then show ?thesis using ne a b by (simp only: same_letter_def simp_thms)
  qed
next
  case a: False
  show ?thesis
  proof (cases "is_upper b")
    case b: True
    from a b have ne: "a \<noteq> b" by blast
    have "lower_char a = lower_char b \<longleftrightarrow> (of_char a :: nat) = of_char b + 32"
      unfolding lower_char_other[OF a] eq_commute[of a] by (rule lower_upper_eq[OF b])
    then show ?thesis using ne a b by (simp only: same_letter_def simp_thms)
  next
    case b: False
    show ?thesis using a b
      by (simp only: lower_char_other[OF a] lower_char_other[OF b] same_letter_def simp_thms)
  qed
qed

lemma lower_str_eq_iff: "lower_str x = lower_str y \<longleftrightarrow> list_all2 same_letter x y"
proof (induction x arbitrary: y)
  case Nil
  then show ?case by (simp add: lower_str_def)
next
  case (Cons c x)
  then show ?case
    by (cases y) (simp_all add: lower_str_def lower_char_eq_iff)
qed

lemma contains_ci_includes:
  "includes_str (lower_str t) (lower_str kw) \<longleftrightarrow> contains_ci t kw"
proof
  assume "includes_str (lower_str t) (lower_str kw)"
  then obtain ps ss where "map lower_char t = ps @ map lower_char kw @ ss"
    by (auto simp: includes_str_sublist sublist_def lower_str_def)
  then obtain us vs where t: "t = us @ vs" and v: "map lower_char kw @ ss = map lower_char vs"
    unfolding map_eq_append_conv by blast
  from v obtain mid post where "vs = mid @ post" and "map lower_char kw = map lower_char mid"
    unfolding append_eq_map_conv by blast
  then have "vs = mid @ post" and "lower_str mid = lower_str kw"
    by (simp_all add: lower_str_def)
  with t show "contains_ci t kw"
    unfolding contains_ci_def lower_str_eq_iff[symmetric] by blast
next
  assume "contains_ci t kw"
  then obtain pre mid post where "t = pre @ mid @ post" and "lower_str mid = lower_str kw"
    unfolding contains_ci_def lower_str_eq_iff[symmetric] by blast
  then have "lower_str t = lower_str pre @ lower_str kw @ lower_str post"
    by (simp add: lower_str_def)
  then show "includes_str (lower_str t) (lower_str kw)"
    by (simp add: includes_str_sublist sublist_def) blast
qed

lemma sublist_IND: "sublist ''INDICATOR'' s \<Longrightarrow> sublist ''IND'' s"
proof -
  assume "sublist ''INDICATOR'' s"
  moreover have "sublist ''IND'' ''INDICATOR''"
    using sublist_appendI[of "''IND''" "[]" "''ICATOR''"] by simp
  ultimately show ?thesis using sublist_order.order_trans by blast
qed

section \<open>Dispatch\<close>

text \<open>
  C1. An invocation whose operation name is none of the seven registered names returns
  normally (\<open>Inr\<close>: no exception leaves the handler) with the payload text
  \<open>Error: Unknown tool: <name>\<close>, which contains the submitted name, and issues no
  request.
\<close>

theorem unknown_tool_payload:
  assumes "name \<notin> set tool_names"
  shows "call_tool fetch name args = (Inr (Payload (Text (''Error: Unknown tool: '' @ name))), [])
         \<and> sublist name (''Error: Unknown tool: '' @ name)"
proof -
  from assms have "call_tool fetch name args = (Inr (Payload (Text (''Error: Unknown tool: '' @ name))), [])"
    by (simp add: call_tool_def tool_names_def catch_error_def)
  moreover have "sublist name (''Error: Unknown tool: '' @ name)"
    using sublist_appendI[of name "''Error: Unknown tool: ''" "[]"] by simp
  ultimately show ?thesis by simp
qed

theorem unknown_tool_payload_witness:
  "''drop_tables'' \<notin> set tool_names
   \<and> call_tool offline ''drop_tables'' JUndefined
       = (Inr (Payload (Text ''Error: Unknown tool: drop_tables'')), [])"
  using unknown_tool_payload[of "''drop_tables''" offline JUndefined]
  by (simp add: tool_names_def)

section \<open>Data retrieval\<close>

lemma snd_catch_error: "snd (catch_error r) = snd r"
  by (cases r; cases "fst r") (simp_all add: catch_error_def)

lemma fst_catch_error_Inr: "fst r = Inr p \<Longrightarrow> fst (catch_error r) = Inr p"
  by (simp add: catch_error_def)

lemma and_then_Inl: "and_then (Inl e) f = Inl e"
  by (simp add: and_then_def)

lemma snd_getData: "data_url d c i sy ey = Inr url \<Longrightarrow> snd (getData fetch d c i sy ey) = [url]"
  by (simp add: getData_def)

lemma getData_unrendered:
  "data_url d c i sy ey = Inl e \<Longrightarrow>
   getData fetch d c i sy ey = (Inl (Exn (''Failed to fetch data: '' @ message e)), [])"
  by (simp add: getData_def rethrow_def)

lemma data_url_string_codes:
  "data_url (JStr d) (JStr c) i sy ey = Inr url \<Longrightarrow>
   getData fetch (JStr d) (JStr c) i sy ey
     = (rethrow ''Failed to fetch data: ''
         (and_then (fetch url) (\<lambda>response.
          and_then (body_text response) (\<lambda>csvText.
            if csvText = [] \<or> trim csvText = []
            then Inr (Payload (Text (''No data found for '' @ c @ '' in '' @ d)))
            else Inr (Payload (Text csvText))))),
        [url])"
  by (simp add: getData_def and_then_Inr cong: if_cong)

text \<open>The URL with every template literal rendered, for codes that render.\<close>

lemma data_url_rendered:
  assumes "to_string d = Inr ds" and "to_string c = Inr cs"
    and "data_url d c i sy ey = Inr url"
  shows "getData fetch d c i sy ey
     = (rethrow ''Failed to fetch data: ''
         (and_then (fetch url) (\<lambda>response.
          and_then (body_text response) (\<lambda>csvText.
            if csvText = [] \<or> trim csvText = []
            then Inr (Payload (Text (''No data found for '' @ cs @ '' in '' @ ds)))
            else Inr (Payload (Text csvText))))),
        [url])"
  using assms by (simp add: getData_def and_then_Inr cong: if_cong)

lemma data_url_primitive:
  assumes "primitive d" and "primitive c" and "primitive i" and "primitive sy" and "primitive ey"
  shows "\<exists>url. data_url d c i sy ey = Inr url"
proof -
  from assms obtain ds cs ix ss es where
    "to_string d = Inr ds" "to_string c = Inr cs" "to_string i = Inr ix"
    "to_string sy = Inr ss" "to_string ey = Inr es"
    using primitive_to_string by metis
  then show ?thesis
    by (simp add: data_url_def data_key_def and_then_Inr)
qed

text \<open>With an arguments object, each of the four operations is one call of \<open>getData\<close>.\<close>

lemma call_tool_retrieval:
  assumes "name \<in> set retrieval_names" and "\<not> nullish args"
  shows "call_tool fetch name args
           = catch_error (getData fetch (retrieval_dataflow name args) (field args ''country_code'')
               (retrieval_indicator name args) (field args ''start_year'') (field args ''end_year''))"
  using assms
  by (auto simp: retrieval_names_def call_tool_def arg_then_def get_prop_def
      retrieval_dataflow_def retrieval_indicator_def)

text \<open>
  C2, as amended. For string dataflow and country codes, the request goes to
  \<open><base>/data/UNICEF,<dataflow>,1.0/<key>?format=csv\<close>, where the key is
  \<open><country>.<indicator>\<close> when an indicator string is supplied and \<open><country>.\<close> when it
  is omitted (\<open>undefined\<close> or \<open>null\<close>); \<open>&startPeriod=<start_year>\<close> follows exactly when
  a start year is supplied and is not zero, and \<open>&endPeriod=<end_year>\<close> exactly when an
  end year is supplied and is not zero.
\<close>

theorem data_request_url:
  assumes "nullish none"
  shows "snd (getData fetch (JStr d) (JStr c)
            (case ind of None \<Rightarrow> none | Some i \<Rightarrow> JStr i)
            (case sy of None \<Rightarrow> JUndefined | Some y \<Rightarrow> JNum y)
            (case ey of None \<Rightarrow> JUndefined | Some y \<Rightarrow> JNum y))
    = [UNICEF_API_BASE @ ''/data/UNICEF,'' @ d @ '',1.0/''
         @ c @ ''.'' @ (case ind of None \<Rightarrow> [] | Some i \<Rightarrow> i) @ ''?format=csv''
         @ (case sy of None \<Rightarrow> []
            | Some y \<Rightarrow> if y = ''0'' \<or> y = ''NaN'' then [] else ''&startPeriod='' @ y)
         @ (case ey of None \<Rightarrow> []
            | Some y \<Rightarrow> if y = ''0'' \<or> y = ''NaN'' then [] else ''&endPeriod='' @ y)]"
proof -
  from assms have n: "\<not> to_boolean none" by (cases none) simp_all
  show ?thesis
    by (cases ind; cases sy; cases ey)
       (simp_all add: getData_def data_url_def data_key_def n and_then_def)
qed

theorem data_request_url_witness:
  "nullish JNull
   \<and> snd (getData offline (JStr ''CME'') (JStr ''BRA'') JNull (JNum ''2000'') (JNum ''2010''))
     = [''https://sdmx.data.unicef.org/ws/public/sdmxapi/rest/data/UNICEF,CME,1.0/BRA.?format=csv&startPeriod=2000&endPeriod=2010'']"
  using data_request_url[of JNull offline "''CME''" "''BRA''" None "Some ''2000''" "Some ''2010''"]
  by (simp add: UNICEF_API_BASE_def)

text \<open>
  C2 as stated fails: with \<open>start_year\<close> supplied as \<open>0\<close>, the test \<open>if (startYear)\<close> is
  false and the URL of the request has no \<open>startPeriod\<close> parameter.
\<close>

theorem zero_start_year_omitted:
  "call_tool offline ''get_child_mortality_data''
     (JObj [(''country_code'', JStr ''BRA''), (''start_year'', JNum ''0''), (''end_year'', JNum ''2010'')])
   = (Inr (Payload (Text ''Error: Failed to fetch data: fetch failed'')),
      [''https://sdmx.data.unicef.org/ws/public/sdmxapi/rest/data/UNICEF,CME,1.0/BRA.?format=csv&endPeriod=2010''])"
  by (simp add: call_tool_def arg_then_def get_prop_def getData_def data_url_def data_key_def
      UNICEF_API_BASE_def offline_def and_then_def rethrow_def catch_error_def)

text \<open>
  C3, as amended. A data-retrieval invocation issues no request, and returns an error
  payload, when it has no arguments object, and when one of the values it splices into
  the URL cannot be rendered as a string (an object with a \<open>toString\<close> property of its
  own). Otherwise it issues exactly one request, whether or not the dataflow and country
  codes are absent or empty: every value that is not an array or an object renders
  (\<open>undefined\<close> for an absent code, the empty string for an empty one), and the payload
  is then what the exchange yields: the error of a failed fetch or body read, the
  no-data message for a blank body, the body otherwise.
\<close>

theorem retrieval_requests:
  assumes "name \<in> set retrieval_names"
  shows "(nullish args \<longrightarrow>
            snd (call_tool fetch name args) = []
            \<and> (\<exists>msg. fst (call_tool fetch name args) = Inr (Payload (Text (''Error: '' @ msg)))))
       \<and> (\<not> nullish args \<longrightarrow>
            data_url (retrieval_dataflow name args) (field args ''country_code'')
              (retrieval_indicator name args) (field args ''start_year'') (field args ''end_year'')
              = Inl e \<longrightarrow>
            call_tool fetch name args
              = (Inr (Payload (Text (''Error: Failed to fetch data: '' @ message e))), []))
       \<and> (\<not> nullish args \<longrightarrow>
            data_url (retrieval_dataflow name args) (field args ''country_code'')
              (retrieval_indicator name args) (field args ''start_year'') (field args ''end_year'')
              = Inr url \<longrightarrow>
            to_string (field args ''country_code'') = Inr cs \<longrightarrow>
            to_string (retrieval_dataflow name args) = Inr ds \<longrightarrow>
            call_tool fetch name args
              = (Inr (Payload (Text
                   (case fetch url of
                      Inl err \<Rightarrow> ''Error: Failed to fetch data: '' @ message err
                    | Inr response \<Rightarrow>
                        (case body_text response of
                           Inl err \<Rightarrow> ''Error: Failed to fetch data: '' @ message err
                         | Inr body \<Rightarrow>
                             if list_all is_space body
                             then ''No data found for '' @ cs @ '' in '' @ ds
                             else body)))),
                 [url]))
       \<and> (primitive (retrieval_dataflow name args) \<longrightarrow> primitive (field args ''country_code'') \<longrightarrow>
          primitive (retrieval_indicator name args) \<longrightarrow> primitive (field args ''start_year'') \<longrightarrow>
          primitive (field args ''end_year'') \<longrightarrow>
            (\<exists>u. data_url (retrieval_dataflow name args) (field args ''country_code'')
                   (retrieval_indicator name args) (field args ''start_year'')
                   (field args ''end_year'') = Inr u))"
proof (intro conjI impI)
  assume n: "nullish args"
  with assms show "snd (call_tool fetch name args) = []"
    by (auto simp: retrieval_names_def call_tool_def snd_catch_error arg_then_def get_prop_def)
  from n assms show "\<exists>msg. fst (call_tool fetch name args) = Inr (Payload (Text (''Error: '' @ msg)))"
    by (auto simp: retrieval_names_def call_tool_def catch_error_def arg_then_def get_prop_def)
next
  assume nn: "\<not> nullish args"
    and u: "data_url (retrieval_dataflow name args) (field args ''country_code'')
              (retrieval_indicator name args) (field args ''start_year'') (field args ''end_year'')
              = Inl e"
  show "call_tool fetch name args
          = (Inr (Payload (Text (''Error: Failed to fetch data: '' @ message e))), [])"
    by (simp add: call_tool_retrieval[OF assms nn] getData_unrendered[OF u] catch_error_def)
next
  assume nn: "\<not> nullish args"
    and u: "data_url (retrieval_dataflow name args) (field args ''country_code'')
              (retrieval_indicator name args) (field args ''start_year'') (field args ''end_year'')
              = Inr url"
    and c: "to_string (field args ''country_code'') = Inr cs"
    and d: "to_string (retrieval_dataflow name args) = Inr ds"
  have sp: "(body = [] \<or> trim body = []) = list_all is_space body" for body
    by (simp add: trim_empty_iff list_all_iff)
  show "call_tool fetch name args
          = (Inr (Payload (Text
               (case fetch url of
                  Inl err \<Rightarrow> ''Error: Failed to fetch data: '' @ message err
                | Inr response \<Rightarrow>
                    (case body_text response of
                       Inl err \<Rightarrow> ''Error: Failed to fetch data: '' @ message err
                     | Inr body \<Rightarrow>
                         if list_all is_space body
                         then ''No data found for '' @ cs @ '' in '' @ ds
                         else body)))),
             [url])"
    by (simp add: call_tool_retrieval[OF assms nn] data_url_rendered[OF d c u] catch_error_def
        rethrow_def and_then_def sp split: sum.splits)
next
  assume "primitive (retrieval_dataflow name args)" "primitive (field args ''country_code'')"
    "primitive (retrieval_indicator name args)" "primitive (field args ''start_year'')"
    "primitive (field args ''end_year'')"
  then show "\<exists>u. data_url (retrieval_dataflow name args) (field args ''country_code'')
                   (retrieval_indicator name args) (field args ''start_year'')
                   (field args ''end_year'') = Inr u"
    by (rule data_url_primitive)
qed

theorem retrieval_requests_witness:
  "''get_child_mortality_data'' \<in> set retrieval_names
   \<and> nullish JUndefined
   \<and> call_tool offline ''get_child_mortality_data'' JUndefined
       = (Inr (Payload (Text ''Error: Cannot read properties of undefined (reading 'country_code')'')), [])
   \<and> \<not> nullish (JObj [])
   \<and> call_tool (serving (csv_response ''REF_AREA,OBS_VALUE'')) ''get_child_mortality_data'' (JObj [])
       = (Inr (Payload (Text ''REF_AREA,OBS_VALUE'')),
          [''https://sdmx.data.unicef.org/ws/public/sdmxapi/rest/data/UNICEF,CME,1.0/undefined.?format=csv''])
   \<and> call_tool offline ''get_child_mortality_data''
         (JObj [(''country_code'', JObj [(''toString'', JNum ''1'')])])
       = (Inr (Payload (Text ''Error: Failed to fetch data: Cannot convert object to primitive value'')), [])"
proof -
  let ?w = "serving (csv_response ''REF_AREA,OBS_VALUE'')"
  let ?url = "''https://sdmx.data.unicef.org/ws/public/sdmxapi/rest/data/UNICEF,CME,1.0/undefined.?format=csv''"
  let ?bad = "JObj [(''country_code'', JObj [(''toString'', JNum ''1'')])]"
  have m: "''get_child_mortality_data'' \<in> set retrieval_names" by (simp add: retrieval_names_def)
  have a: "call_tool offline ''get_child_mortality_data'' JUndefined
       = (Inr (Payload (Text ''Error: Cannot read properties of undefined (reading 'country_code')'')), [])"
    using retrieval_requests[OF m, of JUndefined offline]
    by (simp add: call_tool_def catch_error_def arg_then_def get_prop_def)
  have u: "data_url (retrieval_dataflow ''get_child_mortality_data'' (JObj []))
             (field (JObj []) ''country_code'')
             (retrieval_indicator ''get_child_mortality_data'' (JObj []))
             (field (JObj []) ''start_year'') (field (JObj []) ''end_year'') = Inr ?url"
    by (simp add: data_url_def data_key_def UNICEF_API_BASE_def retrieval_dataflow_def
        retrieval_indicator_def and_then_def)
  have b: "call_tool ?w ''get_child_mortality_data'' (JObj []) = (Inr (Payload (Text ''REF_AREA,OBS_VALUE'')), [?url])"
    using retrieval_requests[OF m, of "JObj []" ?w _ ?url "''undefined''" "''CME''"] u
    by (simp add: retrieval_dataflow_def serving_def csv_response_def is_space_def)
  have v: "data_url (retrieval_dataflow ''get_child_mortality_data'' ?bad)
             (field ?bad ''country_code'')
             (retrieval_indicator ''get_child_mortality_data'' ?bad)
             (field ?bad ''start_year'') (field ?bad ''end_year'')
           = Inl (Exn ''Cannot convert object to primitive value'')"
    by (simp add: data_url_def data_key_def retrieval_dataflow_def retrieval_indicator_def
        and_then_def)
  have c: "call_tool offline ''get_child_mortality_data'' ?bad
       = (Inr (Payload (Text ''Error: Failed to fetch data: Cannot convert object to primitive value'')), [])"
    using retrieval_requests[OF m, of ?bad offline "Exn ''Cannot convert object to primitive value''"] v
    by simp
  from a b c m show ?thesis by simp
qed

text \<open>
  C3 as stated fails: with the country code absent, and with the dataflow and country
  codes empty, the request is issued all the same and the payload is the body the
  remote service answers with.
\<close>

theorem missing_country_code_requested:
  "call_tool (serving (csv_response ''REF_AREA,OBS_VALUE'')) ''get_child_mortality_data'' (JObj [])
     = (Inr (Payload (Text ''REF_AREA,OBS_VALUE'')),
        [''https://sdmx.data.unicef.org/ws/public/sdmxapi/rest/data/UNICEF,CME,1.0/undefined.?format=csv''])
   \<and> call_tool (serving (csv_response ''REF_AREA,OBS_VALUE'')) ''get_indicator_for_country''
       (JObj [(''dataflow_id'', JStr []), (''country_code'', JStr [])])
     = (Inr (Payload (Text ''REF_AREA,OBS_VALUE'')),
        [''https://sdmx.data.unicef.org/ws/public/sdmxapi/rest/data/UNICEF,,1.0/.?format=csv''])"
  by (simp add: call_tool_def arg_then_def get_prop_def getData_def data_url_def data_key_def
      UNICEF_API_BASE_def serving_def csv_response_def and_then_def rethrow_def catch_error_def
      trim_def is_space_def)

text \<open>
  C5. A data-retrieval invocation with string country and dataflow codes, whose request
  is answered with a body that is empty or made of white space only, returns normally
  with the payload text \<open>No data found for <country> in <dataflow>\<close>.
\<close>

theorem empty_body_no_data:
  assumes "name \<in> set retrieval_names"
    and "field args ''country_code'' = JStr c"
    and "retrieval_dataflow name args = JStr d"
    and "snd (call_tool fetch name args) = [url]"
    and "fetch url = Inr r"
    and "body_text r = Inr body"
    and "\<forall>ch\<in>set body. is_space ch"
  shows "fst (call_tool fetch name args)
           = Inr (Payload (Text (''No data found for '' @ c @ '' in '' @ d)))"
proof -
  from assms(2) have nn: "\<not> nullish args" by (auto simp: field_nullish)
  note ct = call_tool_retrieval[OF assms(1) nn, of fetch]
  have u: "data_url (JStr d) (JStr c) (retrieval_indicator name args)
      (field args ''start_year'') (field args ''end_year'') = Inr url"
  proof (cases "data_url (JStr d) (JStr c) (retrieval_indicator name args)
      (field args ''start_year'') (field args ''end_year'')")
    case (Inl e)
    with assms(4) show ?thesis
      by (simp add: ct snd_catch_error getData_unrendered assms(2,3))
  next
    case (Inr u)
    with assms(4) show ?thesis
      by (simp add: ct snd_catch_error snd_getData assms(2,3))
  qed
  from assms(7) have "body = [] \<or> trim body = []" by (simp add: trim_empty_iff)
  with assms(5,6)
  have "fst (getData fetch (JStr d) (JStr c) (retrieval_indicator name args)
      (field args ''start_year'') (field args ''end_year''))
        = Inr (Payload (Text (''No data found for '' @ c @ '' in '' @ d)))"
    by (simp add: data_url_string_codes[OF u] and_then_def rethrow_def)
  then show ?thesis
    by (simp add: ct assms(2,3) fst_catch_error_Inr)
qed

theorem empty_body_no_data_witness:
  "''get_child_mortality_data'' \<in> set retrieval_names
   \<and> list_all is_space [CHR '' '', CHR 0x0A]
   \<and> call_tool (serving (csv_response [CHR '' '', CHR 0x0A])) ''get_child_mortality_data''
        (JObj [(''country_code'', JStr ''BRA'')])
     = (Inr (Payload (Text ''No data found for BRA in CME'')),
        [''https://sdmx.data.unicef.org/ws/public/sdmxapi/rest/data/UNICEF,CME,1.0/BRA.?format=csv''])"
proof -
  let ?w = "serving (csv_response [CHR '' '', CHR 0x0A])"
  let ?args = "JObj [(''country_code'', JStr ''BRA'')]"
  let ?url = "''https://sdmx.data.unicef.org/ws/public/sdmxapi/rest/data/UNICEF,CME,1.0/BRA.?format=csv''"
  have a: "''get_child_mortality_data'' \<in> set retrieval_names" by (simp add: retrieval_names_def)
  have b: "field ?args ''country_code'' = JStr ''BRA''" by simp
  have c: "retrieval_dataflow ''get_child_mortality_data'' ?args = JStr ''CME''"
    by (simp add: retrieval_dataflow_def)
  have d: "snd (call_tool ?w ''get_child_mortality_data'' ?args) = [?url]"
    by (simp add: call_tool_def snd_catch_error arg_then_def get_prop_def getData_def
        data_url_def data_key_def UNICEF_API_BASE_def and_then_def)
  have e: "?w ?url = Inr (csv_response [CHR '' '', CHR 0x0A])" by (simp add: serving_def)
  have f: "body_text (csv_response [CHR '' '', CHR 0x0A]) = Inr [CHR '' '', CHR 0x0A]"
    by (simp add: csv_response_def)
  have g: "\<forall>ch\<in>set [CHR '' '', CHR 0x0A]. is_space ch" by (simp add: is_space_def)
  from empty_body_no_data[OF a b c d e f g] d a g
  show ?thesis by (simp add: list_all_iff prod_eq_iff)
qed

text \<open>The convenience operations against the general one.\<close>

lemma map_of_filter_other:
  "k \<noteq> k' \<Longrightarrow> map_of (filter (\<lambda>kv. fst kv \<noteq> k') kvs) k = map_of kvs k"
  by (induction kvs) auto

lemma map_of_filter_same: "map_of (filter (\<lambda>kv. fst kv \<noteq> k') kvs) k' = None"
  by (induction kvs) auto

lemma getData_absent_indicator:
  "getData fetch d c JUndefined sy ey = getData fetch d c JNull sy ey"
  by (simp add: getData_def data_url_def data_key_def)

lemma wrapper_as_generic:
  "arg_then (get_prop (JObj kvs) ''country_code'') (\<lambda>cc.
   arg_then (get_prop (JObj kvs) ''start_year'') (\<lambda>sy.
   arg_then (get_prop (JObj kvs) ''end_year'') (\<lambda>ey.
     getData fetch (JStr df) cc JNull sy ey)))
   = (let args = JObj ((''dataflow_id'', JStr df) # filter (\<lambda>kv. fst kv \<noteq> ''indicator_id'') kvs) in
      arg_then (get_prop args ''dataflow_id'') (\<lambda>d.
      arg_then (get_prop args ''country_code'') (\<lambda>cc.
      arg_then (get_prop args ''indicator_id'') (\<lambda>ind.
      arg_then (get_prop args ''start_year'') (\<lambda>sy.
      arg_then (get_prop args ''end_year'') (\<lambda>ey.
        getData fetch d cc ind sy ey))))))"
  by (simp add: arg_then_def get_prop_def map_of_filter_other map_of_filter_same
      getData_absent_indicator Let_def)

text \<open>
  C8. On every arguments object, each convenience operation returns what
  \<open>get_indicator_for_country\<close> returns (payload and request alike) on the same arguments
  with \<open>dataflow_id\<close> set to \<open>CHLD_PVTY\<close>, \<open>CME\<close> or \<open>NUTRITION\<close> and \<open>indicator_id\<close>
  removed; the key built without an indicator is the rendered country code followed by
  the dot.
\<close>

theorem wrappers_are_generic:
  "call_tool fetch ''get_child_poverty_data'' (JObj kvs)
     = call_tool fetch ''get_indicator_for_country''
         (JObj ((''dataflow_id'', JStr ''CHLD_PVTY'') # filter (\<lambda>kv. fst kv \<noteq> ''indicator_id'') kvs))
   \<and> call_tool fetch ''get_child_mortality_data'' (JObj kvs)
     = call_tool fetch ''get_indicator_for_country''
         (JObj ((''dataflow_id'', JStr ''CME'') # filter (\<lambda>kv. fst kv \<noteq> ''indicator_id'') kvs))
   \<and> call_tool fetch ''get_nutrition_data'' (JObj kvs)
     = call_tool fetch ''get_indicator_for_country''
         (JObj ((''dataflow_id'', JStr ''NUTRITION'') # filter (\<lambda>kv. fst kv \<noteq> ''indicator_id'') kvs))
   \<and> data_key (field (JObj kvs) ''country_code'') JNull
     = and_then (to_string (field (JObj kvs) ''country_code'')) (\<lambda>c. Inr (c @ ''.''))"
proof -
  have a: "call_tool fetch ''get_child_poverty_data'' (JObj kvs)
     = call_tool fetch ''get_indicator_for_country''
         (JObj ((''dataflow_id'', JStr ''CHLD_PVTY'') # filter (\<lambda>kv. fst kv \<noteq> ''indicator_id'') kvs))"
    unfolding call_tool_def using wrapper_as_generic[of kvs fetch "''CHLD_PVTY''"]
    by (simp add: Let_def)
  have b: "call_tool fetch ''get_child_mortality_data'' (JObj kvs)
     = call_tool fetch ''get_indicator_for_country''
         (JObj ((''dataflow_id'', JStr ''CME'') # filter (\<lambda>kv. fst kv \<noteq> ''indicator_id'') kvs))"
    unfolding call_tool_def using wrapper_as_generic[of kvs fetch "''CME''"]
    by (simp add: Let_def)
  have c: "call_tool fetch ''get_nutrition_data'' (JObj kvs)
     = call_tool fetch ''get_indicator_for_country''
         (JObj ((''dataflow_id'', JStr ''NUTRITION'') # filter (\<lambda>kv. fst kv \<noteq> ''indicator_id'') kvs))"
    unfolding call_tool_def using wrapper_as_generic[of kvs fetch "''NUTRITION''"]
    by (simp add: Let_def)
  have d: "data_key (field (JObj kvs) ''country_code'') JNull
     = and_then (to_string (field (JObj kvs) ''country_code'')) (\<lambda>c. Inr (c @ ''.''))"
    by (simp add: data_key_def)
  from a b c d show ?thesis by blast
qed

theorem wrappers_are_generic_witness:
  "call_tool (serving (csv_response ''REF_AREA,OBS_VALUE'')) ''get_nutrition_data''
       (JObj [(''country_code'', JStr ''BRA''), (''start_year'', JNum ''2000'')])
     = call_tool (serving (csv_response ''REF_AREA,OBS_VALUE'')) ''get_indicator_for_country''
       (JObj [(''dataflow_id'', JStr ''NUTRITION''), (''country_code'', JStr ''BRA''),
              (''start_year'', JNum ''2000'')])
   \<and> snd (call_tool (serving (csv_response ''REF_AREA,OBS_VALUE'')) ''get_nutrition_data''
       (JObj [(''country_code'', JStr ''BRA''), (''start_year'', JNum ''2000'')]))
     = [''https://sdmx.data.unicef.org/ws/public/sdmxapi/rest/data/UNICEF,NUTRITION,1.0/BRA.?format=csv&startPeriod=2000'']"
proof -
  have "snd (call_tool (serving (csv_response ''REF_AREA,OBS_VALUE'')) ''get_nutrition_data''
       (JObj [(''country_code'', JStr ''BRA''), (''start_year'', JNum ''2000'')]))
     = [''https://sdmx.data.unicef.org/ws/public/sdmxapi/rest/data/UNICEF,NUTRITION,1.0/BRA.?format=csv&startPeriod=2000'']"
    by (simp add: call_tool_def snd_catch_error arg_then_def get_prop_def getData_def
        data_url_def data_key_def UNICEF_API_BASE_def and_then_def)
  with wrappers_are_generic[of "serving (csv_response ''REF_AREA,OBS_VALUE'')"
         "[(''country_code'', JStr ''BRA''), (''start_year'', JNum ''2000'')]"]
  show ?thesis by simp
qed

section \<open>Selecting the indicator code list\<close>

text \<open>
  C10. On a code list whose identifier is a string \<open>s\<close>, the selection callback of
  \<open>getIndicators\<close> and \<open>searchIndicators\<close> answers exactly whether \<open>s\<close> contains \<open>IND\<close>:
  the test for \<open>INDICATOR\<close> adds nothing, and an identifier that merely contains \<open>IND\<close>
  is selected.
\<close>

theorem indicator_disjunct_redundant:
  assumes "field cl ''id'' = JStr s"
  shows "is_indicator_codelist cl = Inr (sublist ''IND'' s)
         \<and> (sublist ''INDICATOR'' s \<or> sublist ''IND'' s) = sublist ''IND'' s"
proof -
  from assms have nn: "\<not> nullish cl" by (cases cl) auto
  have "is_indicator_codelist cl = Inr (includes_str s ''INDICATOR'' \<or> includes_str s ''IND'')"
    using assms nn by (simp add: is_indicator_codelist_def get_prop_def and_then_def opt_includes_def)
  moreover have "(sublist ''INDICATOR'' s \<or> sublist ''IND'' s) = sublist ''IND'' s"
    using sublist_IND by blast
  ultimately show ?thesis by (simp add: includes_str_sublist)
qed

theorem indicator_disjunct_redundant_witness:
  "field (JObj [(''id'', JStr ''CL_WINDOW'')]) ''id'' = JStr ''CL_WINDOW''
   \<and> is_indicator_codelist (JObj [(''id'', JStr ''CL_WINDOW'')]) = Inr True"
proof -
  have s: "sublist ''IND'' ''CL_WINDOW''"
    using sublist_appendI[of "''IND''" "''CL_W''" "''OW''"] by simp
  have f: "field (JObj [(''id'', JStr ''CL_WINDOW'')]) ''id'' = JStr ''CL_WINDOW''" by simp
  from indicator_disjunct_redundant[OF f] s f show ?thesis by simp
qed

section \<open>The metadata operations\<close>

lemma wf_codelist_selects: "wf_codelist cl \<Longrightarrow> is_indicator_codelist cl = Inr (id_selects cl)"
  by (cases "field cl ''id''")
     (simp_all add: wf_codelist_def text_field_def is_indicator_codelist_def get_prop_def
        and_then_def opt_includes_def id_selects_def text_of_def includes_str_sublist)

lemma codelist_lookup:
  "\<forall>cl\<in>set cls. wf_codelist cl \<Longrightarrow>
   js_find is_indicator_codelist cls
     = Inr (case find id_selects cls of None \<Rightarrow> JUndefined | Some x \<Rightarrow> x)"
  by (rule js_find_total) (simp add: wf_codelist_selects)

text \<open>What both operations read of a document that carries an array of code lists.\<close>

lemma codelists_read:
  assumes "field (field doc ''data'') ''codelists'' = JArr cls"
  shows "get_prop doc ''data'' = Inr (field doc ''data'')"
    and "js_or (opt_prop (field doc ''data'') ''codelists'') (JArr []) = JArr cls"
proof -
  from assms have "\<not> nullish (field doc ''data'')" by (auto simp: field_nullish)
  moreover from this have "\<not> nullish doc" by (auto simp: field_nullish)
  ultimately show "get_prop doc ''data'' = Inr (field doc ''data'')"
    and "js_or (opt_prop (field doc ''data'') ''codelists'') (JArr []) = JArr cls"
    using assms by (simp_all add: get_prop_def opt_prop_def js_or_def)
qed

lemma find_Some_truthy:
  assumes "\<forall>cl\<in>set cls. wf_codelist cl" and "find id_selects cls = Some cl"
  shows "to_boolean cl" and "\<not> nullish cl"
proof -
  from assms(2) have "cl \<in> set cls" and s: "id_selects cl"
    by (auto simp: find_Some_iff)
  with assms(1) have w: "wf_codelist cl" by blast
  from s have "field cl ''id'' \<noteq> JUndefined" by (auto simp: id_selects_def text_of_def)
  then show "to_boolean cl" by (cases cl) simp_all
  from w show "\<not> nullish cl" by (simp add: wf_codelist_def)
qed

lemma shape_code_total: "\<not> nullish c \<Longrightarrow> shape_code c = Inr (code_entry c)"
  by (simp add: shape_code_def label_or_def get_prop_def and_then_def code_entry_def js_or_def Let_def)

lemma sample_find:
  "find id_selects sample_codelists
     = Some (JObj [(''id'', JStr ''CL_UNICEF_INDICATOR''), (''codes'', JArr sample_codes)])"
  by (simp add: sample_codelists_def id_selects_def text_of_def includes_str_sublist[symmetric])

text \<open>
  C7. For a dataflow code that renders as a string and a metadata document whose code
  lists are objects with string identifiers, \<open>getIndicators\<close> takes the first code list
  whose identifier contains \<open>INDICATOR\<close> or \<open>IND\<close> and returns the first 100 of its
  codes, at most, each as an \<open>{id, name}\<close> pair.
\<close>

theorem first_indicator_codelist_codes:
  assumes "to_string dataflowId = Inr d"
    and "fetch (metadata_url d) = Inr r"
    and "body_json r = Inr doc"
    and "field (field doc ''data'') ''codelists'' = JArr cls"
    and "\<forall>cl\<in>set cls. wf_codelist cl"
    and "find id_selects cls = Some cl"
    and "field cl ''codes'' = JArr cs"
    and "\<forall>c\<in>set cs. \<not> nullish c"
  shows "fst (getIndicators fetch dataflowId)
           = Inr (Payload (JsonText (JArr (take 100 (map code_entry cs)))))
         \<and> length (take 100 (map code_entry cs)) \<le> 100"
proof -
  note rd = codelists_read[OF assms(4)]
  note fs = find_Some_truthy[OF assms(5,6)]
  have m: "js_map shape_code cs = Inr (map code_entry cs)"
    by (rule js_map_total) (simp add: shape_code_total assms(8))
  have "fst (getIndicators fetch dataflowId)
           = Inr (Payload (JsonText (JArr (take 100 (map code_entry cs)))))"
    by (simp add: getIndicators_def Let_def assms(1,2,3,6,7) rd fs and_then_def rethrow_def
        as_array_def codelist_lookup[OF assms(5)] get_prop_field m)
  then show ?thesis by simp
qed

theorem first_indicator_codelist_codes_witness:
  "list_all wf_codelist sample_codelists
   \<and> find id_selects sample_codelists
       = Some (JObj [(''id'', JStr ''CL_UNICEF_INDICATOR''), (''codes'', JArr sample_codes)])
   \<and> list_all (\<lambda>c. \<not> nullish c) sample_codes
   \<and> fst (getIndicators (serving (metadata_response sample_codelists)) (JStr ''CME''))
       = Inr (Payload (JsonText (JArr
           [JObj [(''id'', JStr ''PT_CHLD''), (''name'', JStr ''Child Poverty'')],
            JObj [(''id'', JStr ''CME_MRY0''), (''name'', JStr ''Under-five mortality rate'')],
            JObj [(''id'', JStr ''NT_BW_LBW''), (''name'', JStr ''Unknown'')]])))"
proof -
  let ?r = "metadata_response sample_codelists"
  let ?cl = "JObj [(''id'', JStr ''CL_UNICEF_INDICATOR''), (''codes'', JArr sample_codes)]"
  have t: "to_string (JStr ''CME'') = Inr ''CME''" by simp
  have a: "serving ?r (metadata_url ''CME'') = Inr ?r" by (simp add: serving_def)
  have b: "body_json ?r = Inr (JObj [(''data'', JObj [(''codelists'', JArr sample_codelists)])])"
    by (simp add: metadata_response_def)
  have c: "field (field (JObj [(''data'', JObj [(''codelists'', JArr sample_codelists)])]) ''data'') ''codelists''
             = JArr sample_codelists" by simp
  have d: "\<forall>cl\<in>set sample_codelists. wf_codelist cl"
    by (simp add: sample_codelists_def wf_codelist_def text_field_def)
  have f: "field ?cl ''codes'' = JArr sample_codes" by simp
  have g: "\<forall>c\<in>set sample_codes. \<not> nullish c" by (simp add: sample_codes_def)
  from first_indicator_codelist_codes[where fetch="serving ?r" and dataflowId="JStr ''CME''",
         OF t a b c d sample_find f g]
    d g sample_find
  show ?thesis
    by (simp add: list_all_iff) (simp add: sample_codes_def code_entry_def opt_prop_def js_or_def)
qed

lemma label_lower:
  assumes "wf_code c"
  shows "and_then (label_or c (JStr [])) to_lower_case = Inr (lower_str (entry_label c))"
proof -
  from assms have nn: "\<not> nullish c"
    and n: "text_field (field c ''name'')"
    and e: "text_field (opt_prop (field c ''names'') ''en'')"
    by (simp_all add: wf_code_def)
  show ?thesis
    using n e
    by (cases "opt_prop (field c ''names'') ''en''"; cases "field c ''name''")
       (simp_all add: label_or_def get_prop_field[OF nn] and_then_def Let_def text_field_def
          entry_label_def text_of_def js_or_def to_lower_case_def lower_str_def)
qed

lemma id_lower:
  assumes "wf_code c"
  shows "and_then (get_prop c ''id'') (\<lambda>i. to_lower_case (js_or i (JStr [])))
           = Inr (lower_str (entry_id c))"
proof -
  from assms have nn: "\<not> nullish c" and i: "text_field (field c ''id'')"
    by (simp_all add: wf_code_def)
  show ?thesis
    using i
    by (cases "field c ''id''")
       (simp_all add: get_prop_field[OF nn] and_then_def text_field_def
          entry_id_def text_of_def js_or_def to_lower_case_def lower_str_def)
qed

lemma code_matches_total:
  "wf_code c \<Longrightarrow>
   code_matches (lower_str kw) c = Inr (contains_ci (entry_label c) kw \<or> contains_ci (entry_id c) kw)"
  by (simp add: code_matches_def label_lower id_lower and_then_Inr contains_ci_includes)

text \<open>
  C6. On a metadata document whose indicator code list holds codes with string
  identifiers and labels, and for a string keyword, \<open>searchIndicators\<close> returns the
  \<open>{id, name}\<close> pairs of exactly the codes whose identifier or label contains the
  keyword case-insensitively (letter for letter, up to case), in order, cut to the
  first 50; when no code matches, the payload is the empty list.
\<close>

theorem search_returns_matches:
  assumes "fetch (metadata_url ''GLOBAL_DATAFLOW'') = Inr r"
    and "body_json r = Inr doc"
    and "field (field doc ''data'') ''codelists'' = JArr cls"
    and "\<forall>cl\<in>set cls. wf_codelist cl"
    and "find id_selects cls = Some cl"
    and "field cl ''codes'' = JArr cs"
    and "\<forall>c\<in>set cs. wf_code c"
  shows "fst (searchIndicators fetch (JStr kw))
           = Inr (Payload (JsonText (JArr (take 50 (map code_entry
               (filter (\<lambda>c. contains_ci (entry_id c) kw \<or> contains_ci (entry_label c) kw) cs))))))
         \<and> length (take 50 (map code_entry
               (filter (\<lambda>c. contains_ci (entry_id c) kw \<or> contains_ci (entry_label c) kw) cs))) \<le> 50
         \<and> ((\<forall>c\<in>set cs. \<not> (contains_ci (entry_id c) kw \<or> contains_ci (entry_label c) kw))
              \<longrightarrow> fst (searchIndicators fetch (JStr kw)) = Inr (Payload (JsonText (JArr []))))"
proof -
  let ?q = "\<lambda>c. contains_ci (entry_label c) kw \<or> contains_ci (entry_id c) kw"
  let ?m = "\<lambda>c. contains_ci (entry_id c) kw \<or> contains_ci (entry_label c) kw"
  note rd = codelists_read[OF assms(3)]
  note fs = find_Some_truthy[OF assms(4,5)]
  have f: "js_filter (code_matches (lower_str kw)) cs = Inr (filter ?q cs)"
    by (rule js_filter_total) (simp add: code_matches_total assms(7))
  have "\<forall>c\<in>set (filter ?q cs). \<not> nullish c"
    using assms(7) by (auto simp: wf_code_def)
  then have m: "js_map shape_code (filter ?q cs) = Inr (map code_entry (filter ?q cs))"
    by (intro js_map_total) (simp add: shape_code_total)
  have q: "?q = ?m" by auto
  have "fst (searchIndicators fetch (JStr kw))
           = Inr (Payload (JsonText (JArr (take 50 (map code_entry (filter ?q cs))))))"
    by (simp add: searchIndicators_def Let_def assms(1,2,5,6) rd fs and_then_def rethrow_def
        as_array_def codelist_lookup[OF assms(4)] get_prop_field to_lower_case_def f m)
  then have r: "fst (searchIndicators fetch (JStr kw))
           = Inr (Payload (JsonText (JArr (take 50 (map code_entry (filter ?m cs))))))"
    unfolding q .
  have "filter ?m cs = []" if "\<forall>c\<in>set cs. \<not> ?m c"
    using that by (simp add: filter_empty_conv)
  with r show ?thesis by simp
qed

theorem search_returns_matches_witness:
  "list_all wf_codelist sample_codelists
   \<and> list_all wf_code sample_codes
   \<and> fst (searchIndicators (serving (metadata_response sample_codelists)) (JStr ''POV''))
       = Inr (Payload (JsonText (JArr
           [JObj [(''id'', JStr ''PT_CHLD''), (''name'', JStr ''Child Poverty'')]])))
   \<and> fst (searchIndicators (serving (metadata_response sample_codelists)) (JStr ''immunization''))
       = Inr (Payload (JsonText (JArr [])))
   \<and> fst (searchIndicators (serving (metadata_response accented_codelists)) (JStr [CHR 0xE9]))
       = Inr (Payload (JsonText (JArr
           [JObj [(''id'', JStr ''ED_SCH''), (''name'', JStr (CHR 0xC9 # ''cole''))]])))"
proof -
  let ?r = "metadata_response sample_codelists"
  let ?cl = "JObj [(''id'', JStr ''CL_UNICEF_INDICATOR''), (''codes'', JArr sample_codes)]"
  have a: "serving ?r (metadata_url ''GLOBAL_DATAFLOW'') = Inr ?r" by (simp add: serving_def)
  have b: "body_json ?r = Inr (JObj [(''data'', JObj [(''codelists'', JArr sample_codelists)])])"
    by (simp add: metadata_response_def)
  have c: "field (field (JObj [(''data'', JObj [(''codelists'', JArr sample_codelists)])]) ''data'') ''codelists''
             = JArr sample_codelists" by simp
  have d: "\<forall>cl\<in>set sample_codelists. wf_codelist cl"
    by (simp add: sample_codelists_def wf_codelist_def text_field_def)
  have f: "field ?cl ''codes'' = JArr sample_codes" by simp
  have g: "\<forall>c\<in>set sample_codes. wf_code c"
    by (simp add: sample_codes_def wf_code_def text_field_def opt_prop_def)
  have ev: "lower_str ''PT_CHLD'' = ''pt_chld''" "lower_str ''Child Poverty'' = ''child poverty''"
    "lower_str ''CME_MRY0'' = ''cme_mry0''"
    "lower_str ''Under-five mortality rate'' = ''under-five mortality rate''"
    "lower_str ''NT_BW_LBW'' = ''nt_bw_lbw''" "lower_str [] = []"
    "lower_str ''POV'' = ''pov''" "lower_str ''immunization'' = ''immunization''"
    "lower_str ''ED_SCH'' = ''ed_sch''" "lower_str (CHR 0xC9 # ''cole'') = CHR 0xE9 # ''cole''"
    "lower_str [CHR 0xE9] = [CHR 0xE9]"
    by code_simp+
  let ?r' = "metadata_response accented_codelists"
  let ?cl' = "JObj [(''id'', JStr ''CL_INDICATOR''), (''codes'', JArr accented_codes)]"
  have a': "serving ?r' (metadata_url ''GLOBAL_DATAFLOW'') = Inr ?r'" by (simp add: serving_def)
  have b': "body_json ?r' = Inr (JObj [(''data'', JObj [(''codelists'', JArr accented_codelists)])])"
    by (simp add: metadata_response_def)
  have c': "field (field (JObj [(''data'', JObj [(''codelists'', JArr accented_codelists)])]) ''data'') ''codelists''
             = JArr accented_codelists" by simp
  have d': "\<forall>cl\<in>set accented_codelists. wf_codelist cl"
    by (simp add: accented_codelists_def wf_codelist_def text_field_def)
  have e': "find id_selects accented_codelists = Some ?cl'"
    by (simp add: accented_codelists_def id_selects_def text_of_def includes_str_sublist[symmetric])
  have f': "field ?cl' ''codes'' = JArr accented_codes" by simp
  have g': "\<forall>c\<in>set accented_codes. wf_code c"
    by (simp add: accented_codes_def wf_code_def text_field_def opt_prop_def)
  have acc: "fst (searchIndicators (serving ?r') (JStr [CHR 0xE9]))
       = Inr (Payload (JsonText (JArr
           [JObj [(''id'', JStr ''ED_SCH''), (''name'', JStr (CHR 0xC9 # ''cole''))]])))"
    using search_returns_matches[where fetch="serving ?r'" and kw="[CHR 0xE9]", OF a' b' c' d' e' f' g']
    by (simp add: accented_codes_def contains_ci_includes[symmetric] entry_id_def entry_label_def
          text_of_def opt_prop_def ev code_entry_def js_or_def)
  from search_returns_matches[where fetch="serving ?r" and kw="''POV''", OF a b c d sample_find f g]
       search_returns_matches[where fetch="serving ?r" and kw="''immunization''", OF a b c d sample_find f g]
       d g acc
  show ?thesis
    by (simp add: list_all_iff)
       (simp add: sample_codes_def contains_ci_includes[symmetric] entry_id_def entry_label_def
          text_of_def opt_prop_def ev code_entry_def js_or_def)
qed

text \<open>
  C4, as amended. On a metadata document whose code lists have string identifiers none
  of which contains \<open>INDICATOR\<close> or \<open>IND\<close>, \<open>getIndicators\<close> returns a payload that
  lists the identifiers present, joined by a comma and a space; \<open>searchIndicators\<close>
  returns the fixed text \<open>Could not find indicator codelist\<close>.
\<close>

theorem no_indicator_codelist_message:
  assumes "fetch (metadata_url df) = Inr r"
    and "fetch (metadata_url ''GLOBAL_DATAFLOW'') = Inr r"
    and "body_json r = Inr doc"
    and "field (field doc ''data'') ''codelists'' = JArr cls"
    and "map (\<lambda>cl. field cl ''id'') cls = map JStr ids"
    and "\<forall>s\<in>set ids. \<not> sublist ''INDICATOR'' s \<and> \<not> sublist ''IND'' s"
  shows "fst (getIndicators fetch (JStr df))
           = Inr (Payload (Text (''No indicator codelist found for dataflow '' @ df
               @ ''. Available codelists: '' @ join_with '', '' ids)))
         \<and> fst (searchIndicators fetch keyword)
           = Inr (Payload (Text ''Could not find indicator codelist''))"
proof -
  note rd = codelists_read[OF assms(4)]
  have el: "\<exists>s\<in>set ids. field cl ''id'' = JStr s" if "cl \<in> set cls" for cl
  proof -
    from that have "field cl ''id'' \<in> set (map (\<lambda>cl. field cl ''id'') cls)" by simp
    then show ?thesis unfolding assms(5) by auto
  qed
  have wf: "\<forall>cl\<in>set cls. wf_codelist cl"
  proof
    fix cl assume "cl \<in> set cls"
    from el[OF this] obtain s where s: "field cl ''id'' = JStr s" by blast
    then have "\<not> nullish cl" by (auto simp: field_nullish)
    with s show "wf_codelist cl" by (simp add: wf_codelist_def text_field_def)
  qed
  have "\<not> id_selects cl" if "cl \<in> set cls" for cl
    using el[OF that] assms(6) by (auto simp: id_selects_def text_of_def)
  then have nf: "find id_selects cls = None" by (simp add: find_None_iff)
  have ids: "js_map (\<lambda>c. get_prop c ''id'') cls = Inr (map JStr ids)"
    unfolding assms(5)[symmetric] using wf
    by (intro js_map_total) (simp add: wf_codelist_def get_prop_field)
  have j: "js_join '', '' (map JStr ids) = Inr (join_with '', '' ids)"
    by (simp add: js_join_def element_strings_JStr)
  have a: "fst (getIndicators fetch (JStr df))
           = Inr (Payload (Text (''No indicator codelist found for dataflow '' @ df
               @ ''. Available codelists: '' @ join_with '', '' ids)))"
    by (simp add: getIndicators_def Let_def assms(1,3) rd and_then_def rethrow_def
        as_array_def codelist_lookup[OF wf] nf ids j)
  have b: "fst (searchIndicators fetch keyword)
           = Inr (Payload (Text ''Could not find indicator codelist''))"
    by (simp add: searchIndicators_def Let_def assms(2,3) rd and_then_def rethrow_def
        as_array_def codelist_lookup[OF wf] nf)
  from a b show ?thesis by simp
qed

theorem no_indicator_codelist_message_witness:
  "map (\<lambda>cl. field cl ''id'') other_codelists = map JStr [''CL_AREA'', ''CL_UNIT'']
   \<and> list_all (\<lambda>s. \<not> sublist ''INDICATOR'' s \<and> \<not> sublist ''IND'' s) [''CL_AREA'', ''CL_UNIT'']
   \<and> fst (getIndicators (serving (metadata_response other_codelists)) (JStr ''CME''))
       = Inr (Payload (Text ''No indicator codelist found for dataflow CME. Available codelists: CL_AREA, CL_UNIT''))
   \<and> fst (searchIndicators (serving (metadata_response other_codelists)) (JStr ''poverty''))
       = Inr (Payload (Text ''Could not find indicator codelist''))"
proof -
  let ?r = "metadata_response other_codelists"
  have a: "serving ?r (metadata_url ''CME'') = Inr ?r" by (simp add: serving_def)
  have a': "serving ?r (metadata_url ''GLOBAL_DATAFLOW'') = Inr ?r" by (simp add: serving_def)
  have b: "body_json ?r = Inr (JObj [(''data'', JObj [(''codelists'', JArr other_codelists)])])"
    by (simp add: metadata_response_def)
  have c: "field (field (JObj [(''data'', JObj [(''codelists'', JArr other_codelists)])]) ''data'') ''codelists''
             = JArr other_codelists" by simp
  have d: "map (\<lambda>cl. field cl ''id'') other_codelists = map JStr [''CL_AREA'', ''CL_UNIT'']"
    by (simp add: other_codelists_def)
  have e: "\<forall>s\<in>set [''CL_AREA'', ''CL_UNIT'']. \<not> sublist ''INDICATOR'' s \<and> \<not> sublist ''IND'' s"
    by (simp add: includes_str_sublist[symmetric])
  from no_indicator_codelist_message[where fetch="serving ?r" and df="''CME''" and keyword="JStr ''poverty''",
         OF a a' b c d e] d e
  show ?thesis by (simp add: list_all_iff)
qed

text \<open>
  C4 as stated fails for \<open>search_indicators\<close>: on a document whose code lists are
  \<open>CL_AREA\<close> and \<open>CL_UNIT\<close>, its payload names neither.
\<close>

theorem search_without_codelist_silent:
  "call_tool (serving (metadata_response other_codelists)) ''search_indicators''
       (JObj [(''keyword'', JStr ''poverty'')])
     = (Inr (Payload (Text ''Could not find indicator codelist'')),
        [''https://sdmx.data.unicef.org/ws/public/sdmxapi/rest/dataflow/UNICEF/GLOBAL_DATAFLOW/latest/?format=sdmx-json&detail=full&references=all''])
   \<and> \<not> sublist ''CL_AREA'' ''Could not find indicator codelist''
   \<and> \<not> sublist ''CL_UNIT'' ''Could not find indicator codelist''"
  by (simp add: call_tool_def arg_then_def get_prop_def searchIndicators_def metadata_url_def
      UNICEF_API_BASE_def serving_def metadata_response_def other_codelists_def and_then_def
      rethrow_def catch_error_def Let_def opt_prop_def js_or_def as_array_def
      is_indicator_codelist_def opt_includes_def includes_str_sublist[symmetric])

section \<open>The chart page\<close>

lemma update_if_absent: "field data k = JUndefined \<Longrightarrow> snd (update_if data k upd s) = s"
  by (simp add: update_if_def get_prop_def)

lemma snd_seq:
  "snd (seq f g s) = (case fst (f s) of Some e \<Rightarrow> snd (f s) | None \<Rightarrow> snd (g (snd (f s))))"
  by (cases "f s"; cases "fst (f s)") (auto simp: seq_def)

text \<open>Each update function writes its own chart variable only.\<close>

lemma updateMortality_frame:
  "nutritionChart (snd (update_if data k (updateMortalityChart redraw) s)) = nutritionChart s"
  "povertyChart (snd (update_if data k (updateMortalityChart redraw) s)) = povertyChart s"
  by (auto simp: update_if_def updateMortalityChart_def Let_def split: sum.splits option.splits)

lemma updateNutrition_frame:
  "mortalityChart (snd (update_if data k (updateNutritionChart redraw) s)) = mortalityChart s"
  "povertyChart (snd (update_if data k (updateNutritionChart redraw) s)) = povertyChart s"
  by (auto simp: update_if_def updateNutritionChart_def Let_def split: sum.splits option.splits)

lemma updatePoverty_frame:
  "mortalityChart (snd (update_if data k (updatePovertyChart redraw) s)) = mortalityChart s"
  "nutritionChart (snd (update_if data k (updatePovertyChart redraw) s)) = nutritionChart s"
  by (auto simp: update_if_def updatePovertyChart_def Let_def split: sum.splits option.splits)

lemma charts_mortality_kept:
  "field data ''mortality'' = JUndefined \<Longrightarrow>
   mortalityChart (snd (updateChartsWithData redraw data s)) = mortalityChart s"
  by (simp add: updateChartsWithData_def snd_seq update_if_absent updateNutrition_frame
      updatePoverty_frame split: option.splits)

lemma charts_nutrition_kept:
  "field data ''nutrition'' = JUndefined \<Longrightarrow>
   nutritionChart (snd (updateChartsWithData redraw data s)) = nutritionChart s"
  by (simp add: updateChartsWithData_def snd_seq update_if_absent updateMortality_frame
      updatePoverty_frame split: option.splits)

lemma charts_poverty_kept:
  "field data ''poverty'' = JUndefined \<Longrightarrow>
   povertyChart (snd (updateChartsWithData redraw data s)) = povertyChart s"
  by (simp add: updateChartsWithData_def snd_seq update_if_absent updateMortality_frame
      updateNutrition_frame split: option.splits)

lemma load_mortality_kept:
  "summary_lacks fetch ''mortality'' \<Longrightarrow>
   mortalityChart (loadDataFromJSON fetch redraw s) = mortalityChart s"
  by (auto simp: summary_lacks_def loadDataFromJSON_def charts_mortality_kept split: sum.splits)

lemma load_nutrition_kept:
  "summary_lacks fetch ''nutrition'' \<Longrightarrow>
   nutritionChart (loadDataFromJSON fetch redraw s) = nutritionChart s"
  by (auto simp: summary_lacks_def loadDataFromJSON_def charts_nutrition_kept split: sum.splits)

lemma load_poverty_kept:
  "summary_lacks fetch ''poverty'' \<Longrightarrow>
   povertyChart (loadDataFromJSON fetch redraw s) = povertyChart s"
  by (auto simp: summary_lacks_def loadDataFromJSON_def charts_poverty_kept split: sum.splits)

text \<open>
  C9. For each of the three charts: when the fetch of the summary document fails, its
  status is not a success, its body does not parse, or the parsed document has no
  property for the chart, the chart is after the load what its \<open>init\<close> function made of
  it: the placeholder labels and datasets where the page has the canvas, and no chart
  where it has not. This holds whatever the charting library's \<open>update\<close> does for the
  other charts.
\<close>

theorem placeholders_retained:
  "(summary_lacks fetch ''mortality'' \<longrightarrow>
      mortalityChart (on_load fetch redraw ids)
        = (if ''mortalityChart'' \<in> set ids then Some mortality_placeholder else None))
   \<and> (summary_lacks fetch ''nutrition'' \<longrightarrow>
      nutritionChart (on_load fetch redraw ids)
        = (if ''nutritionChart'' \<in> set ids then Some nutrition_placeholder else None))
   \<and> (summary_lacks fetch ''poverty'' \<longrightarrow>
      povertyChart (on_load fetch redraw ids)
        = (if ''povertyChart'' \<in> set ids then Some poverty_placeholder else None))"
  by (simp add: on_load_def load_mortality_kept load_nutrition_kept load_poverty_kept
      initMortalityChart_def initNutritionChart_def initPovertyChart_def)

theorem placeholders_retained_witness:
  "summary_lacks (serving (summary_response mortality_only)) ''nutrition''
   \<and> nutritionChart (on_load (serving (summary_response mortality_only)) redraw_ok
        [''mortalityChart'', ''nutritionChart'', ''povertyChart'']) = Some nutrition_placeholder
   \<and> mortalityChart (on_load (serving (summary_response mortality_only)) redraw_ok
        [''mortalityChart'', ''nutritionChart'', ''povertyChart''])
       = Some \<lparr>labels = JArr [JStr ''2000'', JStr ''2020''],
               datasets = JArr [JObj [(''label'', JStr ''Under-5 Mortality Rate''),
                                      (''data'', JArr [JNum ''76.4'', JNum ''36.6''])]]\<rparr>
   \<and> summary_lacks offline ''mortality''
   \<and> mortalityChart (on_load offline redraw_ok [''mortalityChart'']) = Some mortality_placeholder"
proof -
  let ?w = "serving (summary_response mortality_only)"
  let ?ids = "[''mortalityChart'', ''nutritionChart'', ''povertyChart'']"
  have l: "summary_lacks ?w ''nutrition''"
    by (simp add: summary_lacks_def serving_def summary_response_def mortality_only_def)
  have o: "summary_lacks offline ''mortality''"
    by (simp add: summary_lacks_def offline_def)
  have m: "mortalityChart (on_load ?w redraw_ok ?ids)
       = Some \<lparr>labels = JArr [JStr ''2000'', JStr ''2020''],
               datasets = JArr [JObj [(''label'', JStr ''Under-5 Mortality Rate''),
                                      (''data'', JArr [JNum ''76.4'', JNum ''36.6''])]]\<rparr>"
    by (simp add: on_load_def loadDataFromJSON_def serving_def summary_response_def
        mortality_only_def updateChartsWithData_def seq_def update_if_def get_prop_def
        updateMortalityChart_def updateNutritionChart_def updatePovertyChart_def
        initMortalityChart_def initNutritionChart_def initPovertyChart_def redraw_ok_def Let_def)
  from placeholders_retained[of ?w redraw_ok ?ids]
       placeholders_retained[of offline redraw_ok "[''mortalityChart'']"] l o m
  show ?thesis by simp
qed

end
